theory Spec2Isabelle
  imports Main "HOL-Library.Monad_Syntax" "HOL-Library.Word"
begin

section \<open>Values of the host language\<close>

text \<open>
  The module \<^verbatim>\<open>src/jwt/jwt.ts\<close> works on JavaScript strings, byte arrays
  (\<^verbatim>\<open>Uint8Array\<close>), values read by \<^verbatim>\<open>JSON.parse\<close> and \<^verbatim>\<open>Date\<close> objects.

  \<^item> A string is a \<^typ>\<open>string\<close>; a byte array is a list of 8-bit words.
  \<^item> A value read from JSON text is a \<open>json\<close>. An object is the list of its
    properties in insertion order, each key once. A number is modelled by its integer
    value: the claim set of a token counts whole seconds, and every operation below is
    exact on integer-valued doubles (see \<open>new_Date\<close>). Numbers with a fractional part
    need IEEE rounding and are outside this model.
\<close>

type_synonym bytes = "8 word list"

datatype json =
    JNull
  | JBool bool
  | JNum int
  | JStr string
  | JArr "json list"
  | JObj "(string \<times> json) list"

text \<open>The \<^verbatim>\<open>typeof\<close> operator: \<^verbatim>\<open>null\<close> and arrays are of type \<^verbatim>\<open>"object"\<close>.\<close>

fun typeof :: "json \<Rightarrow> string" where
  "typeof JNull = ''object''"
| "typeof (JBool b) = ''boolean''"
| "typeof (JNum n) = ''number''"
| "typeof (JStr s) = ''string''"
| "typeof (JArr xs) = ''object''"
| "typeof (JObj kvs) = ''object''"

text \<open>\<^verbatim>\<open>Array.isArray\<close>.\<close>

fun isArray :: "json \<Rightarrow> bool" where
  "isArray (JArr xs) = True"
| "isArray v = False"

text \<open>
  Property access \<^verbatim>\<open>v.k\<close> together with the test \<^verbatim>\<open>"k" in v\<close>, for a value \<open>v\<close> of
  type \<^verbatim>\<open>"object"\<close> other than \<^verbatim>\<open>null\<close>: \<open>None\<close> when \<^verbatim>\<open>"k" in v\<close> is false. The
  module only asks for the keys \<^verbatim>\<open>alg typ exp iss sub aud nbf iat jti\<close>; none of them
  is an array index, \<^verbatim>\<open>length\<close> or a member of \<^verbatim>\<open>Object.prototype\<close>, so an array has
  none of them and an object has exactly its own.
\<close>

fun get_prop :: "json \<Rightarrow> string \<Rightarrow> json option" where
  "get_prop (JObj kvs) k = map_of kvs k"
| "get_prop v k = None"

text \<open>
  Reading a value at the type a \<^verbatim>\<open>typeof\<close> or \<^verbatim>\<open>Array.isArray\<close> test has narrowed it to.
\<close>

fun the_string :: "json \<Rightarrow> string" where
  "the_string (JStr s) = s"
| "the_string v = []"

fun the_number :: "json \<Rightarrow> int" where
  "the_number (JNum n) = n"
| "the_number v = 0"

fun the_array :: "json \<Rightarrow> json list" where
  "the_array (JArr xs) = xs"
| "the_array v = []"

text \<open>
  Assignment \<^verbatim>\<open>obj[k] = v\<close> on an object, which is also what the spread
  \<^verbatim>\<open>{...a, ...b}\<close> does with each property of \<open>b\<close> in turn: an existing key keeps its
  place and takes the new value, a new key goes last.
\<close>

fun obj_put :: "(string \<times> json) list \<Rightarrow> string \<Rightarrow> json \<Rightarrow> (string \<times> json) list" where
  "obj_put [] k v = [(k, v)]"
| "obj_put ((k', v') # kvs) k v =
     (if k' = k then (k, v) # kvs else (k', v') # obj_put kvs k v)"

definition spread :: "(string \<times> json) list \<Rightarrow> (string \<times> json) list \<Rightarrow> (string \<times> json) list" where
  "spread a b = foldl (\<lambda>acc (k, v). obj_put acc k v) a b"

text \<open>
  \<^verbatim>\<open>s.split(".")\<close> and \<^verbatim>\<open>parts.join(".")\<close>. Splitting the empty string gives one empty
  part.
\<close>

fun js_split :: "char \<Rightarrow> string \<Rightarrow> string list" where
  "js_split sep [] = [[]]"
| "js_split sep (c # cs) =
     (if c = sep then [] # js_split sep cs
      else (case js_split sep cs of [] \<Rightarrow> [[c]] | p # ps \<Rightarrow> (c # p) # ps))"

fun js_join :: "string \<Rightarrow> string list \<Rightarrow> string" where
  "js_join sep [] = []"
| "js_join sep [p] = p"
| "js_join sep (p # q # ps) = p @ sep @ js_join sep (q # ps)"

text \<open>
  A \<^verbatim>\<open>Date\<close> holds a time value in milliseconds or is invalid (its time value is NaN).
  \<^verbatim>\<open>new Date(t)\<close> keeps \<open>t\<close> when its magnitude is at most 8.64e15 and is invalid
  otherwise. For an integer-valued double \<open>n\<close> the product \<^verbatim>\<open>n * 1000\<close> is exact
  whenever it is within that bound (which is below \<open>2^53\<close>) and stays beyond the bound
  after rounding whenever the exact product is beyond it, so \<open>new_Date (n * 1000)\<close>
  over the integers is what \<^verbatim>\<open>new Date(n * 1000)\<close> computes.
\<close>

datatype jsdate = Date int | InvalidDate

definition new_Date :: "int \<Rightarrow> jsdate" where
  "new_Date t = (if \<bar>t\<bar> \<le> 8640000000000000 then Date t else InvalidDate)"

text \<open>\<^verbatim>\<open>d.getTime()\<close>; \<open>None\<close> is NaN.\<close>

fun getTime :: "jsdate \<Rightarrow> int option" where
  "getTime (Date t) = Some t"
| "getTime InvalidDate = None"

text \<open>\<^verbatim>\<open>a < b\<close> for a finite \<open>a\<close>: false when \<open>b\<close> is NaN.\<close>

fun js_less :: "int \<Rightarrow> int option \<Rightarrow> bool" where
  "js_less a (Some b) = (a < b)"
| "js_less a None = False"

section \<open>Errors, collaborators and the ambient state\<close>

text \<open>
  A \<^verbatim>\<open>throw\<close> (a rejected promise for the asynchronous functions) is the left
  injection of a sum. \<open>Error\<close> and \<open>TypeError\<close> carry the message the module gives them;
  \<open>SyntaxError\<close> is what \<^verbatim>\<open>JSON.parse\<close> throws, \<open>DecodeError\<close> what the base64url
  decoder throws, \<open>PrimitiveError\<close> what a signing primitive throws (a key it cannot use).
\<close>

datatype error =
    Error string
  | TypeError string
  | SyntaxError
  | DecodeError
  | PrimitiveError

text \<open>
  The signing primitives of \<^verbatim>\<open>../crypto\<close>, as \<^verbatim>\<open>getAlgorithm\<close> constructs them.
\<close>

datatype hash_name = SHA_256 | SHA_384 | SHA_512

datatype curve_name = P_256 | P_384 | P_521

datatype signing_algorithm =
    ECDSA hash_name curve_name
  | HMAC hash_name
  | RSASSAPKCS1v1_5 hash_name
  | RSASSAPSS hash_name

text \<open>
  What the module imports and what the platform provides is a parameter of every
  function below: the base64url codec of \<^verbatim>\<open>../encoding\<close> (decoding is the non-strict
  mode, \<open>None\<close> when it throws; encoding is without padding), \<^verbatim>\<open>TextDecoder\<close> and
  \<^verbatim>\<open>TextEncoder\<close>, \<^verbatim>\<open>JSON.parse\<close> (\<open>None\<close> when it throws) and \<^verbatim>\<open>JSON.stringify\<close>,
  the \<^verbatim>\<open>sign\<close> and \<^verbatim>\<open>verify\<close> methods of the primitives (\<open>None\<close> when they throw), and
  the clock: \<open>clock E k\<close> is what the \<open>k\<close>-th evaluation of \<^verbatim>\<open>Date.now()\<close> returns.
\<close>

record env =
  base64url_decode :: "string \<Rightarrow> bytes option"
  base64url_encode :: "bytes \<Rightarrow> string"
  TextDecoder_decode :: "bytes \<Rightarrow> string"
  TextEncoder_encode :: "string \<Rightarrow> bytes"
  JSON_parse :: "string \<Rightarrow> json option"
  JSON_stringify :: "json \<Rightarrow> string"
  sign :: "signing_algorithm \<Rightarrow> bytes \<Rightarrow> bytes \<Rightarrow> bytes option"
  verify :: "signing_algorithm \<Rightarrow> bytes \<Rightarrow> bytes \<Rightarrow> bytes \<Rightarrow> bool option"
  clock :: "nat \<Rightarrow> int"

text \<open>
  The effects of a run: how often the clock has been read, and which primitive
  operations have been invoked, oldest first.
\<close>

datatype call =
    Sign signing_algorithm bytes bytes
  | Verify signing_algorithm bytes bytes bytes

record world =
  reads :: nat
  calls :: "call list"

definition Date_now :: "env \<Rightarrow> world \<Rightarrow> int \<times> world" where
  "Date_now E w = (clock E (reads w), w\<lparr>reads := Suc (reads w)\<rparr>)"

text \<open>
  Modelled from the spec: \<^verbatim>\<open>isWithinExpirationDate\<close> is imported from \<^verbatim>\<open>../index.js\<close>,
  which is not among the sources. The spec has the expiration be \<^emph>\<open>in the future
  relative to current time\<close>: the current time is strictly before the date's time value.
  An invalid date has no time value and is not in the future.
\<close>

definition isWithinExpirationDate :: "env \<Rightarrow> world \<Rightarrow> jsdate \<Rightarrow> bool \<times> world" where
  "isWithinExpirationDate E w d =
     (let (now, w') = Date_now E w in (js_less now (getTime d), w'))"

section \<open>The algorithm registry\<close>

definition ecdsaDictionary :: "(string \<times> hash_name \<times> curve_name) list" where
  "ecdsaDictionary =
     [(''ES256'', SHA_256, P_256), (''ES384'', SHA_384, P_384), (''ES512'', SHA_512, P_521)]"

definition hmacDictionary :: "(string \<times> hash_name) list" where
  "hmacDictionary = [(''HS256'', SHA_256), (''HS384'', SHA_384), (''HS512'', SHA_512)]"

definition rsassapkcs1v1_5Dictionary :: "(string \<times> hash_name) list" where
  "rsassapkcs1v1_5Dictionary = [(''RS256'', SHA_256), (''RS384'', SHA_384), (''RS512'', SHA_512)]"

definition rsassapssDictionary :: "(string \<times> hash_name) list" where
  "rsassapssDictionary = [(''PS256'', SHA_256), (''PS384'', SHA_384), (''PS512'', SHA_512)]"

text \<open>
  \<^verbatim>\<open>getAlgorithm\<close>: four tests on the tag in the order of the source, each followed by
  the lookup in its dictionary, and the \<^verbatim>\<open>TypeError\<close> when none applies.
\<close>

definition getAlgorithm :: "string \<Rightarrow> error + signing_algorithm" where
  "getAlgorithm a =
     (if a \<in> set [''ES256'', ''ES384'', ''ES512''] then
        (case map_of ecdsaDictionary a of
           Some (h, c) \<Rightarrow> Inr (ECDSA h c)
         | None \<Rightarrow> Inl (TypeError ''Invalid algorithm''))
      else if a \<in> set [''HS256'', ''HS384'', ''HS512''] then
        (case map_of hmacDictionary a of
           Some h \<Rightarrow> Inr (HMAC h)
         | None \<Rightarrow> Inl (TypeError ''Invalid algorithm''))
      else if a \<in> set [''RS256'', ''RS384'', ''RS512''] then
        (case map_of rsassapkcs1v1_5Dictionary a of
           Some h \<Rightarrow> Inr (RSASSAPKCS1v1_5 h)
         | None \<Rightarrow> Inl (TypeError ''Invalid algorithm''))
      else if a \<in> set [''PS256'', ''PS384'', ''PS512''] then
        (case map_of rsassapssDictionary a of
           Some h \<Rightarrow> Inr (RSASSAPSS h)
         | None \<Rightarrow> Inl (TypeError ''Invalid algorithm''))
      else Inl (TypeError ''Invalid algorithm''))"

definition validAlgorithms :: "string list" where
  "validAlgorithms =
     [''HS256'', ''HS384'', ''HS512'', ''RS256'', ''RS384'', ''RS512'',
      ''ES256'', ''ES384'', ''ES512'', ''PS256'', ''PS384'', ''PS512'']"

definition isValidAlgorithm :: "json \<Rightarrow> bool" where
  "isValidAlgorithm maybeValidAlgorithm =
     (if typeof maybeValidAlgorithm \<noteq> ''string'' then False
      else the_string maybeValidAlgorithm \<in> set validAlgorithms)"

section \<open>Parsing\<close>

text \<open>
  The interface \<^verbatim>\<open>JWT\<close>. \<^verbatim>\<open>null\<close> in a field is \<open>None\<close>; the field \<^verbatim>\<open>value\<close> is
  \<open>value'\<close>.
\<close>

record JWT =
  value' :: string
  header :: json
  payload :: json
  parts :: "string \<times> string \<times> string"
  algorithm :: string
  expiresAt :: "jsdate option"
  issuer :: "string option"
  subject :: "string option"
  audiences :: "string list option"
  notBefore :: "jsdate option"
  issuedAt :: "jsdate option"
  jwtId :: "string option"

text \<open>
  The seven blocks of \<^verbatim>\<open>parseJWT\<close> that read the recognised claims (lines 154 to 204
  of \<^verbatim>\<open>src/jwt/jwt.ts\<close>), one function each: \<open>None\<close> is \<^verbatim>\<open>return null\<close>, otherwise
  the token object with the field assigned (or untouched when the claim is absent).
\<close>

definition read_exp :: "json \<Rightarrow> JWT \<Rightarrow> JWT option" where
  "read_exp pl jwt =
     (case get_prop pl ''exp'' of
        None \<Rightarrow> Some jwt
      | Some v \<Rightarrow>
          if typeof v \<noteq> ''number'' then None
          else Some (jwt\<lparr>expiresAt := Some (new_Date (the_number v * 1000))\<rparr>))"

definition read_iss :: "json \<Rightarrow> JWT \<Rightarrow> JWT option" where
  "read_iss pl jwt =
     (case get_prop pl ''iss'' of
        None \<Rightarrow> Some jwt
      | Some v \<Rightarrow>
          if typeof v \<noteq> ''string'' then None
          else Some (jwt\<lparr>issuer := Some (the_string v)\<rparr>))"

definition read_sub :: "json \<Rightarrow> JWT \<Rightarrow> JWT option" where
  "read_sub pl jwt =
     (case get_prop pl ''sub'' of
        None \<Rightarrow> Some jwt
      | Some v \<Rightarrow>
          if typeof v \<noteq> ''string'' then None
          else Some (jwt\<lparr>subject := Some (the_string v)\<rparr>))"

definition read_aud :: "json \<Rightarrow> JWT \<Rightarrow> JWT option" where
  "read_aud pl jwt =
     (case get_prop pl ''aud'' of
        None \<Rightarrow> Some jwt
      | Some v \<Rightarrow>
          if \<not> isArray v then
            (if typeof v \<noteq> ''string'' then None
             else Some (jwt\<lparr>audiences := Some [the_string v]\<rparr>))
          else
            (if list_ex (\<lambda>item. typeof item \<noteq> ''string'') (the_array v) then None
             else Some (jwt\<lparr>audiences := Some (map the_string (the_array v))\<rparr>)))"

definition read_nbf :: "json \<Rightarrow> JWT \<Rightarrow> JWT option" where
  "read_nbf pl jwt =
     (case get_prop pl ''nbf'' of
        None \<Rightarrow> Some jwt
      | Some v \<Rightarrow>
          if typeof v \<noteq> ''number'' then None
          else Some (jwt\<lparr>notBefore := Some (new_Date (the_number v * 1000))\<rparr>))"

definition read_iat :: "json \<Rightarrow> JWT \<Rightarrow> JWT option" where
  "read_iat pl jwt =
     (case get_prop pl ''iat'' of
        None \<Rightarrow> Some jwt
      | Some v \<Rightarrow>
          if typeof v \<noteq> ''number'' then None
          else Some (jwt\<lparr>issuedAt := Some (new_Date (the_number v * 1000))\<rparr>))"

definition read_jti :: "json \<Rightarrow> JWT \<Rightarrow> JWT option" where
  "read_jti pl jwt =
     (case get_prop pl ''jti'' of
        None \<Rightarrow> Some jwt
      | Some v \<Rightarrow>
          if typeof v \<noteq> ''string'' then None
          else Some (jwt\<lparr>jwtId := Some (the_string v)\<rparr>))"

definition read_claims :: "json \<Rightarrow> JWT \<Rightarrow> JWT option" where
  "read_claims pl jwt0 =
     do {
       jwt1 \<leftarrow> read_exp pl jwt0;
       jwt2 \<leftarrow> read_iss pl jwt1;
       jwt3 \<leftarrow> read_sub pl jwt2;
       jwt4 \<leftarrow> read_aud pl jwt3;
       jwt5 \<leftarrow> read_nbf pl jwt4;
       jwt6 \<leftarrow> read_iat pl jwt5;
       read_jti pl jwt6
     }"

text \<open>
  \<^verbatim>\<open>parseJWT\<close> of \<^verbatim>\<open>src/jwt/jwt.ts\<close>. The result is an exception, \<^verbatim>\<open>null\<close>
  (\<open>Inr None\<close>) or a token. Both segments are decoded before the header text is parsed;
  nothing catches what the decoder or \<^verbatim>\<open>JSON.parse\<close> throw. A condition \<^verbatim>\<open>a || b\<close> is
  the test of \<open>a\<close> followed by the test of \<open>b\<close>.
\<close>

definition parseJWT :: "env \<Rightarrow> string \<Rightarrow> error + JWT option" where
  "parseJWT E token =
     (case js_split (CHR ''.'') token of
        [p0, p1, p2] \<Rightarrow>
          (case base64url_decode E p0 of
             None \<Rightarrow> Inl DecodeError
           | Some rawHeader \<Rightarrow>
          (case base64url_decode E p1 of
             None \<Rightarrow> Inl DecodeError
           | Some rawPayload \<Rightarrow>
          (case JSON_parse E (TextDecoder_decode E rawHeader) of
             None \<Rightarrow> Inl SyntaxError
           | Some hdr \<Rightarrow>
               if typeof hdr \<noteq> ''object'' then Inr None
               else if hdr = JNull then Inr None
               else
          (case get_prop hdr ''alg'' of
             None \<Rightarrow> Inr None
           | Some alg \<Rightarrow>
               if \<not> isValidAlgorithm alg then Inr None
               else if get_prop hdr ''typ'' \<noteq> None \<and> get_prop hdr ''typ'' \<noteq> Some (JStr ''JWT'')
               then Inr None
               else
          (case JSON_parse E (TextDecoder_decode E rawPayload) of
             None \<Rightarrow> Inl SyntaxError
           | Some pl \<Rightarrow>
               if typeof pl \<noteq> ''object'' then Inr None
               else if pl = JNull then Inr None
               else
                 Inr (read_claims pl
                   \<lparr>value' = token, header = hdr, payload = pl, parts = (p0, p1, p2),
                    algorithm = the_string alg, expiresAt = None, issuer = None,
                    subject = None, audiences = None, notBefore = None, issuedAt = None,
                    jwtId = None\<rparr>))))))
      | _ \<Rightarrow> Inr None)"

section \<open>Validation\<close>

text \<open>
  \<^verbatim>\<open>validateJWT\<close> of \<^verbatim>\<open>src/jwt/jwt.ts\<close>. A \<^verbatim>\<open>Date\<close> object is truthy whether valid or
  not, so \<^verbatim>\<open>parsedJWT.expiresAt && ...\<close> tests the field against \<^verbatim>\<open>null\<close>. The clock is
  read once for each of the two time checks that is made. The invocation of \<^verbatim>\<open>verify\<close>
  is logged before its outcome is known.
\<close>

definition validateJWT ::
  "env \<Rightarrow> world \<Rightarrow> string \<Rightarrow> bytes \<Rightarrow> string \<Rightarrow> (error + JWT) \<times> world" where
  "validateJWT E w alg key jwt =
     (case parseJWT E jwt of
        Inl e \<Rightarrow> (Inl e, w)
      | Inr None \<Rightarrow> (Inl (Error ''Invalid JWT''), w)
      | Inr (Some parsedJWT) \<Rightarrow>
          if algorithm parsedJWT \<noteq> alg then (Inl (Error ''Invalid algorithm''), w)
          else
            let (expired, w1) =
              (case expiresAt parsedJWT of
                 None \<Rightarrow> (False, w)
               | Some d \<Rightarrow>
                   (let (within, w') = isWithinExpirationDate E w d in (\<not> within, w')))
            in
            if expired then (Inl (Error ''Expired JWT''), w1)
            else
              let (inactive, w2) =
                (case notBefore parsedJWT of
                   None \<Rightarrow> (False, w1)
                 | Some d \<Rightarrow>
                     (let (now, w') = Date_now E w1 in (js_less now (getTime d), w')))
              in
              if inactive then (Inl (Error ''Inactive JWT''), w2)
              else
                (case parts parsedJWT of (p0, p1, p2) \<Rightarrow>
                (case base64url_decode E p2 of
                   None \<Rightarrow> (Inl DecodeError, w2)
                 | Some signature \<Rightarrow>
                     let data = TextEncoder_encode E (p0 @ ''.'' @ p1) in
                (case getAlgorithm (algorithm parsedJWT) of
                   Inl e \<Rightarrow> (Inl e, w2)
                 | Inr primitive \<Rightarrow>
                     let w3 = w2\<lparr>calls := calls w2 @ [Verify primitive key signature data]\<rparr> in
                (case verify E primitive key signature data of
                   None \<Rightarrow> (Inl PrimitiveError, w3)
                 | Some validSignature \<Rightarrow>
                     if \<not> validSignature then (Inl (Error ''Invalid signature''), w3)
                     else (Inr parsedJWT, w3))))))"

section \<open>Building\<close>

text \<open>
  \<^verbatim>\<open>createJWTHeader\<close> and \<^verbatim>\<open>createJWT\<close> of \<^verbatim>\<open>src/jwt/jwt.ts\<close>. The header and the
  payload are JSON values; \<^verbatim>\<open>header.alg\<close> goes to \<^verbatim>\<open>getAlgorithm\<close>, which throws its
  \<^verbatim>\<open>TypeError\<close> for everything that is not one of the twelve tags.
\<close>

definition createJWTHeader :: "string \<Rightarrow> json" where
  "createJWTHeader a = JObj [(''alg'', JStr a), (''typ'', JStr ''JWT'')]"

definition getAlgorithm_of :: "json option \<Rightarrow> error + signing_algorithm" where
  "getAlgorithm_of v =
     (case v of
        Some (JStr a) \<Rightarrow> getAlgorithm a
      | _ \<Rightarrow> Inl (TypeError ''Invalid algorithm''))"

definition createJWT ::
  "env \<Rightarrow> world \<Rightarrow> bytes \<Rightarrow> json \<Rightarrow> json \<Rightarrow> (error + string) \<times> world" where
  "createJWT E w key hdr pl =
     (let headerPart = base64url_encode E (TextEncoder_encode E (JSON_stringify E hdr));
          payloadPart = base64url_encode E (TextEncoder_encode E (JSON_stringify E pl));
          data = TextEncoder_encode E (js_join ''.'' [headerPart, payloadPart])
      in
      (case getAlgorithm_of (get_prop hdr ''alg'') of
         Inl e \<Rightarrow> (Inl e, w)
       | Inr primitive \<Rightarrow>
           let w1 = w\<lparr>calls := calls w @ [Sign primitive key data]\<rparr> in
      (case sign E primitive key data of
         None \<Rightarrow> (Inl PrimitiveError, w1)
       | Some signature \<Rightarrow>
           let signaturePart = base64url_encode E signature
           in (Inr (js_join ''.'' [headerPart, payloadPart, signaturePart]), w1))))"

text \<open>
  \<^verbatim>\<open>createJWT\<close> of the second source file of the module (\<^verbatim>\<open>unnamed/part_003\<close>), which
  takes the algorithm as its first argument and the header fields among its options.
  \<^verbatim>\<open>expiresIn\<close> is given by the value of its \<^verbatim>\<open>seconds()\<close> and \<^verbatim>\<open>notBefore\<close> by the
  time value of a valid date; \<^verbatim>\<open>Math.floor(x / 1000)\<close> is \<open>x div 1000\<close>. An option that
  is not supplied is \<open>None\<close>, and \<^verbatim>\<open>includeIssuedTimestamp\<close> is \<open>True\<close> only when it is
  \<^verbatim>\<open>true\<close>.
\<close>

record options =
  headers :: "(string \<times> json) list option"
  expiresIn :: "int option"
  issuer_option :: "string option"
  subject_option :: "string option"
  audiences_option :: "string list option"
  notBefore_option :: "int option"
  includeIssuedTimestamp :: bool
  jwtId_option :: "string option"

definition put_option :: "string \<Rightarrow> json option \<Rightarrow> (string \<times> json) list \<Rightarrow> (string \<times> json) list" where
  "put_option k v obj = (case v of None \<Rightarrow> obj | Some x \<Rightarrow> obj_put obj k x)"

definition createJWT_part_003 ::
  "env \<Rightarrow> world \<Rightarrow> string \<Rightarrow> bytes \<Rightarrow> (string \<times> json) list \<Rightarrow> options \<Rightarrow>
   (error + string) \<times> world" where
  "createJWT_part_003 E w alg key payloadClaims opts =
     (let hdr =
            spread [(''alg'', JStr alg), (''typ'', JStr ''JWT'')]
              (case headers opts of None \<Rightarrow> [] | Some hs \<Rightarrow> hs);
          pl0 = spread [] payloadClaims;
          pl1 = put_option ''aud'' (map_option (\<lambda>as. JArr (map JStr as)) (audiences_option opts)) pl0;
          pl2 = put_option ''sub'' (map_option JStr (subject_option opts)) pl1;
          pl3 = put_option ''iss'' (map_option JStr (issuer_option opts)) pl2;
          pl4 = put_option ''jti'' (map_option JStr (jwtId_option opts)) pl3;
          (pl5, wa) =
            (case expiresIn opts of
               None \<Rightarrow> (pl4, w)
             | Some secs \<Rightarrow>
                 (let (now, w') = Date_now E w
                  in (obj_put pl4 ''exp'' (JNum (now div 1000 + secs)), w')));
          pl6 = put_option ''nbf'' (map_option (\<lambda>t. JNum (t div 1000)) (notBefore_option opts)) pl5;
          (pl7, wb) =
            (if includeIssuedTimestamp opts then
               (let (now, w') = Date_now E wa
                in (obj_put pl6 ''iat'' (JNum (now div 1000)), w'))
             else (pl6, wa));
          headerPart = base64url_encode E (TextEncoder_encode E (JSON_stringify E (JObj hdr)));
          payloadPart = base64url_encode E (TextEncoder_encode E (JSON_stringify E (JObj pl7)));
          data = TextEncoder_encode E (js_join ''.'' [headerPart, payloadPart])
      in
      (case getAlgorithm alg of
         Inl e \<Rightarrow> (Inl e, wb)
       | Inr primitive \<Rightarrow>
           let wc = wb\<lparr>calls := calls wb @ [Sign primitive key data]\<rparr> in
      (case sign E primitive key data of
         None \<Rightarrow> (Inl PrimitiveError, wc)
       | Some signature \<Rightarrow>
           let signaturePart = base64url_encode E signature
           in (Inr (js_join ''.'' [headerPart, payloadPart, signaturePart]), wc))))"

section \<open>Vocabulary for the properties\<close>

text \<open>
  The text a segment of a token decodes to (\<open>None\<close> when the decoder throws), and the
  JSON value it holds: the segment decoded, read as text and parsed; \<open>None\<close> when the
  decoder or \<^verbatim>\<open>JSON.parse\<close> throws.
\<close>

definition segment_text :: "env \<Rightarrow> string \<Rightarrow> string option" where
  "segment_text E p = map_option (TextDecoder_decode E) (base64url_decode E p)"

definition segment_json :: "env \<Rightarrow> string \<Rightarrow> json option" where
  "segment_json E p =
     (case base64url_decode E p of
        None \<Rightarrow> None
      | Some raw \<Rightarrow> JSON_parse E (TextDecoder_decode E raw))"

text \<open>
  The interface \<^verbatim>\<open>JWTPayload\<close> of the source: \<^verbatim>\<open>exp\<close>, \<^verbatim>\<open>nbf\<close> and \<^verbatim>\<open>iat\<close>, when
  present, are numbers; \<^verbatim>\<open>iss\<close>, \<^verbatim>\<open>sub\<close> and \<^verbatim>\<open>jti\<close> are strings; \<^verbatim>\<open>aud\<close> is a string
  or an array of strings.
\<close>

definition has_type :: "string \<Rightarrow> json option \<Rightarrow> bool" where
  "has_type t v = (case v of None \<Rightarrow> True | Some x \<Rightarrow> typeof x = t)"

definition aud_typed :: "json option \<Rightarrow> bool" where
  "aud_typed v =
     (case v of
        None \<Rightarrow> True
      | Some x \<Rightarrow>
          if isArray x then list_all (\<lambda>item. typeof item = ''string'') (the_array x)
          else typeof x = ''string'')"

definition is_JWTPayload :: "json \<Rightarrow> bool" where
  "is_JWTPayload pl =
     (has_type ''number'' (get_prop pl ''exp'') \<and>
      has_type ''string'' (get_prop pl ''iss'') \<and>
      aud_typed (get_prop pl ''aud'') \<and>
      has_type ''string'' (get_prop pl ''jti'') \<and>
      has_type ''number'' (get_prop pl ''nbf'') \<and>
      has_type ''string'' (get_prop pl ''sub'') \<and>
      has_type ''number'' (get_prop pl ''iat''))"

text \<open>
  The headers \<^verbatim>\<open>parseJWT\<close> lets through: \<^verbatim>\<open>alg\<close> is one of the supported tags, and
  \<^verbatim>\<open>typ\<close> is absent or the string \<^verbatim>\<open>JWT\<close>.
\<close>

definition accepted_header :: "json \<Rightarrow> bool" where
  "accepted_header hdr =
     ((case get_prop hdr ''alg'' of None \<Rightarrow> False | Some a \<Rightarrow> isValidAlgorithm a) \<and>
      (get_prop hdr ''typ'' = None \<or> get_prop hdr ''typ'' = Some (JStr ''JWT'')))"

text \<open>
  What the fields of a parsed token are expected to hold, read off the payload: a date
  for a time claim, the string of a string claim, the list of audiences.
\<close>

definition date_claim :: "json \<Rightarrow> string \<Rightarrow> jsdate option" where
  "date_claim pl k = map_option (\<lambda>v. new_Date (the_number v * 1000)) (get_prop pl k)"

definition string_claim :: "json \<Rightarrow> string \<Rightarrow> string option" where
  "string_claim pl k = map_option the_string (get_prop pl k)"

definition aud_claim :: "json \<Rightarrow> string list option" where
  "aud_claim pl =
     map_option (\<lambda>v. if isArray v then map the_string (the_array v) else [the_string v])
       (get_prop pl ''aud'')"

text \<open>
  The token object \<^verbatim>\<open>parseJWT\<close> starts from (every claim field \<^verbatim>\<open>null\<close>), and the
  object with the claim fields of a payload filled in.
\<close>

definition initial_JWT ::
  "string \<Rightarrow> json \<Rightarrow> json \<Rightarrow> string \<times> string \<times> string \<Rightarrow> string \<Rightarrow> JWT" where
  "initial_JWT token hdr pl ps a =
     \<lparr>value' = token, header = hdr, payload = pl, parts = ps, algorithm = a,
      expiresAt = None, issuer = None, subject = None, audiences = None,
      notBefore = None, issuedAt = None, jwtId = None\<rparr>"

definition claims_of :: "json \<Rightarrow> JWT \<Rightarrow> JWT" where
  "claims_of pl j =
     j\<lparr>expiresAt := (case date_claim pl ''exp'' of None \<Rightarrow> expiresAt j | Some d \<Rightarrow> Some d),
       issuer := (case string_claim pl ''iss'' of None \<Rightarrow> issuer j | Some x \<Rightarrow> Some x),
       subject := (case string_claim pl ''sub'' of None \<Rightarrow> subject j | Some x \<Rightarrow> Some x),
       audiences := (case aud_claim pl of None \<Rightarrow> audiences j | Some x \<Rightarrow> Some x),
       notBefore := (case date_claim pl ''nbf'' of None \<Rightarrow> notBefore j | Some d \<Rightarrow> Some d),
       issuedAt := (case date_claim pl ''iat'' of None \<Rightarrow> issuedAt j | Some d \<Rightarrow> Some d),
       jwtId := (case string_claim pl ''jti'' of None \<Rightarrow> jwtId j | Some x \<Rightarrow> Some x)\<rparr>"

text \<open>
  What building and validating ask of the collaborators for one value: its printed and
  encoded form has no dot, decodes to the bytes it was made from, and reads back as the
  value. Likewise for the bytes of a signature. The bytes that are signed are the text
  encoding of the two encoded parts joined by a dot.
\<close>

definition survives_codec :: "env \<Rightarrow> json \<Rightarrow> bool" where
  "survives_codec E v =
     (let raw = TextEncoder_encode E (JSON_stringify E v);
          part = base64url_encode E raw
      in CHR ''.'' \<notin> set part \<and> base64url_decode E part = Some raw \<and>
         JSON_parse E (TextDecoder_decode E raw) = Some v)"

definition survives_base64url :: "env \<Rightarrow> bytes \<Rightarrow> bool" where
  "survives_base64url E b =
     (CHR ''.'' \<notin> set (base64url_encode E b) \<and>
      base64url_decode E (base64url_encode E b) = Some b)"

definition signing_input :: "env \<Rightarrow> json \<Rightarrow> json \<Rightarrow> bytes" where
  "signing_input E hdr pl =
     TextEncoder_encode E
       (base64url_encode E (TextEncoder_encode E (JSON_stringify E hdr)) @ ''.'' @
        base64url_encode E (TextEncoder_encode E (JSON_stringify E pl)))"

text \<open>The primitive a logged operation was invoked on.\<close>

fun primitive_of :: "call \<Rightarrow> signing_algorithm" where
  "primitive_of (Sign p key data) = p"
| "primitive_of (Verify p key signature data) = p"

section \<open>A reference environment\<close>

text \<open>
  The functions above hold for every environment. To run them on concrete tokens, this
  section gives one environment in full: a base64url codec, the text codec on ASCII, a
  JSON reader and printer, a stand-in for the signing primitives and a clock.
\<close>

subsection \<open>base64url\<close>

text \<open>
  Modelled from the spec: the codec of \<^verbatim>\<open>../encoding\<close> is not among the sources. The
  spec has the encoder produce unpadded base64url text and the decoder work in
  non-strict mode: padding is optional, a character outside the base64url alphabet
  fails. The alphabet and the grouping of three bytes into four characters are those of
  RFC 4648; a single left-over character, which holds no whole byte, fails too.
\<close>

definition b64_chars :: string where
  "b64_chars = ''ABCDEFGHIJKLMNOPQRSTUVWXYZabcdefghijklmnopqrstuvwxyz0123456789-_''"

definition b64_char :: "int \<Rightarrow> char" where
  "b64_char n = b64_chars ! nat n"

fun b64_value :: "char \<Rightarrow> string \<Rightarrow> int option" where
  "b64_value c [] = None"
| "b64_value c (d # ds) =
     (if c = d then Some 0 else map_option (\<lambda>n. n + 1) (b64_value c ds))"

fun encode_groups :: "int list \<Rightarrow> string" where
  "encode_groups [] = []"
| "encode_groups [a] = [b64_char (a div 4), b64_char (a mod 4 * 16)]"
| "encode_groups [a, b] =
     [b64_char (a div 4), b64_char (a mod 4 * 16 + b div 16), b64_char (b mod 16 * 4)]"
| "encode_groups (a # b # c # bs) =
     [b64_char (a div 4), b64_char (a mod 4 * 16 + b div 16),
      b64_char (b mod 16 * 4 + c div 64), b64_char (c mod 64)] @ encode_groups bs"

fun decode_groups :: "int list \<Rightarrow> int list option" where
  "decode_groups [] = Some []"
| "decode_groups [a] = None"
| "decode_groups [a, b] = Some [a * 4 + b div 16]"
| "decode_groups [a, b, c] = Some [a * 4 + b div 16, b mod 16 * 16 + c div 4]"
| "decode_groups (a # b # c # d # vs) =
     map_option (\<lambda>r. [a * 4 + b div 16, b mod 16 * 16 + c div 4, c mod 4 * 64 + d] @ r)
       (decode_groups vs)"

definition base64url_encode0 :: "bytes \<Rightarrow> string" where
  "base64url_encode0 bs = encode_groups (map uint bs)"

definition base64url_decode0 :: "string \<Rightarrow> bytes option" where
  "base64url_decode0 s =
     (case those (map (\<lambda>c. b64_value c b64_chars)
                   (rev (dropWhile (\<lambda>c. c = CHR ''='') (rev s)))) of
        None \<Rightarrow> None
      | Some vs \<Rightarrow> map_option (map word_of_int) (decode_groups vs))"

subsection \<open>Text\<close>

text \<open>
  A string stands for its UTF-8 bytes, so on ASCII text, which is all the tokens below
  hold, \<^verbatim>\<open>TextEncoder\<close> and \<^verbatim>\<open>TextDecoder\<close> map characters to bytes and back one by
  one.
\<close>

definition TextEncoder_encode0 :: "string \<Rightarrow> bytes" where
  "TextEncoder_encode0 s = map (\<lambda>c. word_of_int (of_char c)) s"

definition TextDecoder_decode0 :: "bytes \<Rightarrow> string" where
  "TextDecoder_decode0 bs = map (\<lambda>b. char_of (uint b)) bs"

subsection \<open>JSON\<close>

text \<open>
  The printer: \<^verbatim>\<open>JSON.stringify\<close> on the values of type \<open>json\<close>. An integer of
  magnitude below \<open>10^21\<close> is printed in plain decimal digits, at most 21 of them (from
  there on the platform prints an exponent, which this printer does not).
\<close>

fun digits :: "nat \<Rightarrow> int \<Rightarrow> string" where
  "digits 0 n = []"
| "digits (Suc f) n =
     (if n < 10 then [char_of (48 + n)]
      else digits f (n div 10) @ [char_of (48 + n mod 10)])"

definition show_int :: "int \<Rightarrow> string" where
  "show_int i = (if i < 0 then CHR ''-'' # digits 21 (- i) else digits 21 i)"

definition hex_char :: "int \<Rightarrow> char" where
  "hex_char n = ''0123456789abcdef'' ! nat n"

definition escape_char :: "char \<Rightarrow> string" where
  "escape_char c =
     (if c = CHR 0x22 then [CHR 0x5C, CHR 0x22]
      else if c = CHR 0x5C then [CHR 0x5C, CHR 0x5C]
      else if c = CHR 0x08 then [CHR 0x5C, CHR ''b'']
      else if c = CHR 0x0C then [CHR 0x5C, CHR ''f'']
      else if c = CHR 0x0A then [CHR 0x5C, CHR ''n'']
      else if c = CHR 0x0D then [CHR 0x5C, CHR ''r'']
      else if c = CHR 0x09 then [CHR 0x5C, CHR ''t'']
      else if (of_char c :: int) < 32 then
        [CHR 0x5C, CHR ''u'', CHR ''0'', CHR ''0'',
         hex_char (of_char c div 16), hex_char (of_char c mod 16)]
      else [c])"

definition quote :: "string \<Rightarrow> string" where
  "quote s = CHR 0x22 # concat (map escape_char s) @ [CHR 0x22]"

fun stringify :: "json \<Rightarrow> string" where
  "stringify JNull = ''null''"
| "stringify (JBool b) = (if b then ''true'' else ''false'')"
| "stringify (JNum n) = show_int n"
| "stringify (JStr s) = quote s"
| "stringify (JArr xs) = ''['' @ js_join '','' (map stringify xs) @ '']''"
| "stringify (JObj kvs) =
     ''{'' @ js_join '','' (map (\<lambda>kv. quote (fst kv) @ '':'' @ stringify (snd kv)) kvs) @ ''}''"

text \<open>
  The reader: \<^verbatim>\<open>JSON.parse\<close> on texts whose numbers are integers and whose strings
  use the two-character escapes only. A number with a fraction or an exponent and a
  \<^verbatim>\<open>\u\<close> escape lie outside the values modelled here, and this reader refuses them. Of
  a key that occurs twice the last value counts. The first argument of \<open>parse_value\<close>
  bounds the nesting and the number of elements; the length of the text is enough.
\<close>

fun skip_ws :: "string \<Rightarrow> string" where
  "skip_ws [] = []"
| "skip_ws (c # cs) =
     (if c = CHR 0x20 \<or> c = CHR 0x09 \<or> c = CHR 0x0A \<or> c = CHR 0x0D then skip_ws cs
      else c # cs)"

fun strip_prefix :: "string \<Rightarrow> string \<Rightarrow> string option" where
  "strip_prefix [] s = Some s"
| "strip_prefix (p # ps) [] = None"
| "strip_prefix (p # ps) (c # cs) = (if p = c then strip_prefix ps cs else None)"

fun digit_value :: "char \<Rightarrow> string \<Rightarrow> int option" where
  "digit_value c [] = None"
| "digit_value c (d # ds) =
     (if c = d then Some 0 else map_option (\<lambda>n. n + 1) (digit_value c ds))"

fun parse_digits :: "int \<Rightarrow> string \<Rightarrow> int \<times> string" where
  "parse_digits acc [] = (acc, [])"
| "parse_digits acc (c # cs) =
     (case digit_value c ''0123456789'' of
        None \<Rightarrow> (acc, c # cs)
      | Some d \<Rightarrow> parse_digits (acc * 10 + d) cs)"

definition parse_nat :: "string \<Rightarrow> (int \<times> string) option" where
  "parse_nat s =
     (case s of
        [] \<Rightarrow> None
      | c # cs \<Rightarrow>
          (case digit_value c ''0123456789'' of
             None \<Rightarrow> None
           | Some d \<Rightarrow>
               (let (n, r) = (if d = 0 then (0, cs) else parse_digits d cs) in
                (case r of
                   [] \<Rightarrow> Some (n, r)
                 | x # xs \<Rightarrow>
                     if x = CHR ''.'' \<or> x = CHR ''e'' \<or> x = CHR ''E'' then None
                     else if digit_value x ''0123456789'' = None then Some (n, r)
                     else None))))"

definition parse_number :: "string \<Rightarrow> (int \<times> string) option" where
  "parse_number s =
     (case s of
        [] \<Rightarrow> None
      | c # cs \<Rightarrow>
          if c = CHR ''-'' then map_option (\<lambda>(n, r). (- n, r)) (parse_nat cs)
          else parse_nat s)"

definition unescape :: "char \<Rightarrow> char option" where
  "unescape c =
     (if c = CHR 0x22 then Some (CHR 0x22)
      else if c = CHR 0x5C then Some (CHR 0x5C)
      else if c = CHR ''/'' then Some (CHR ''/'')
      else if c = CHR ''b'' then Some (CHR 0x08)
      else if c = CHR ''f'' then Some (CHR 0x0C)
      else if c = CHR ''n'' then Some (CHR 0x0A)
      else if c = CHR ''r'' then Some (CHR 0x0D)
      else if c = CHR ''t'' then Some (CHR 0x09)
      else None)"

fun parse_chars :: "string \<Rightarrow> (string \<times> string) option" where
  "parse_chars [] = None"
| "parse_chars [c] = (if c = CHR 0x22 then Some ([], []) else None)"
| "parse_chars (c # d # cs) =
     (if c = CHR 0x22 then Some ([], d # cs)
      else if c = CHR 0x5C then
        (case unescape d of
           None \<Rightarrow> None
         | Some x \<Rightarrow> map_option (\<lambda>(s, r). (x # s, r)) (parse_chars cs))
      else if (of_char c :: int) < 32 then None
      else map_option (\<lambda>(s, r). (c # s, r)) (parse_chars (d # cs)))"

fun parse_value :: "nat \<Rightarrow> string \<Rightarrow> (json \<times> string) option"
  and parse_elements :: "nat \<Rightarrow> string \<Rightarrow> (json list \<times> string) option"
  and parse_members :: "nat \<Rightarrow> string \<Rightarrow> ((string \<times> json) list \<times> string) option" where
  "parse_value 0 s = None"
| "parse_value (Suc n) s =
     (case skip_ws s of
        [] \<Rightarrow> None
      | c # cs \<Rightarrow>
          if c = CHR ''n'' then map_option (Pair JNull) (strip_prefix ''ull'' cs)
          else if c = CHR ''t'' then map_option (Pair (JBool True)) (strip_prefix ''rue'' cs)
          else if c = CHR ''f'' then map_option (Pair (JBool False)) (strip_prefix ''alse'' cs)
          else if c = CHR 0x22 then map_option (\<lambda>(x, r). (JStr x, r)) (parse_chars cs)
          else if c = CHR ''['' then
            (case skip_ws cs of
               [] \<Rightarrow> None
             | d # ds \<Rightarrow>
                 if d = CHR '']'' then Some (JArr [], ds)
                 else map_option (\<lambda>(xs, r). (JArr xs, r)) (parse_elements n (d # ds)))
          else if c = CHR ''{'' then
            (case skip_ws cs of
               [] \<Rightarrow> None
             | d # ds \<Rightarrow>
                 if d = CHR ''}'' then Some (JObj [], ds)
                 else map_option (\<lambda>(kvs, r). (JObj (spread [] kvs), r))
                        (parse_members n (d # ds)))
          else map_option (\<lambda>(x, r). (JNum x, r)) (parse_number (c # cs)))"
| "parse_elements 0 s = None"
| "parse_elements (Suc n) s =
     (case parse_value n s of
        None \<Rightarrow> None
      | Some (v, r) \<Rightarrow>
          (case skip_ws r of
             [] \<Rightarrow> None
           | c # cs \<Rightarrow>
               if c = CHR '']'' then Some ([v], cs)
               else if c = CHR '','' then
                 map_option (\<lambda>(vs, r'). (v # vs, r')) (parse_elements n cs)
               else None))"
| "parse_members 0 s = None"
| "parse_members (Suc n) s =
     (case skip_ws s of
        [] \<Rightarrow> None
      | q # s1 \<Rightarrow>
          if q \<noteq> CHR 0x22 then None
          else
            (case parse_chars s1 of
               None \<Rightarrow> None
             | Some (k, s2) \<Rightarrow>
                 (case skip_ws s2 of
                    [] \<Rightarrow> None
                  | colon # s3 \<Rightarrow>
                      if colon \<noteq> CHR '':'' then None
                      else
                        (case parse_value n s3 of
                           None \<Rightarrow> None
                         | Some (v, s4) \<Rightarrow>
                             (case skip_ws s4 of
                                [] \<Rightarrow> None
                              | c # cs \<Rightarrow>
                                  if c = CHR ''}'' then Some ([(k, v)], cs)
                                  else if c = CHR '','' then
                                    map_option (\<lambda>(kvs, r'). ((k, v) # kvs, r'))
                                      (parse_members n cs)
                                  else None)))))"

definition JSON_parse0 :: "string \<Rightarrow> json option" where
  "JSON_parse0 s =
     (case parse_value (Suc (length s)) s of
        None \<Rightarrow> None
      | Some (v, r) \<Rightarrow> if skip_ws r = [] then Some v else None)"

subsection \<open>Primitives and clock\<close>

text \<open>
  Modelled from the spec: the primitives of \<^verbatim>\<open>../crypto\<close> are not among the sources,
  and the spec gives their contract only, \<^verbatim>\<open>sign(key, data)\<close> returning the bytes of a
  signature and \<^verbatim>\<open>verify(key, signature, data)\<close> a boolean. This stand-in keeps the
  contract, not the cryptography: the signature is a byte for the primitive, the key,
  and the sum of the data bytes; \<open>verify0\<close> recomputes it. A signature made with a key
  verifies under the same primitive, key and data. The clock starts at 1700000000000 ms
  and advances by one millisecond with each reading.
\<close>

fun hash_byte :: "hash_name \<Rightarrow> 8 word" where
  "hash_byte SHA_256 = 0"
| "hash_byte SHA_384 = 1"
| "hash_byte SHA_512 = 2"

fun primitive_byte :: "signing_algorithm \<Rightarrow> 8 word" where
  "primitive_byte (ECDSA h c) = 16 + hash_byte h"
| "primitive_byte (HMAC h) = 32 + hash_byte h"
| "primitive_byte (RSASSAPKCS1v1_5 h) = 48 + hash_byte h"
| "primitive_byte (RSASSAPSS h) = 64 + hash_byte h"

definition sign0 :: "signing_algorithm \<Rightarrow> bytes \<Rightarrow> bytes \<Rightarrow> bytes option" where
  "sign0 p key data = Some (primitive_byte p # key @ [sum_list data])"

definition verify0 :: "signing_algorithm \<Rightarrow> bytes \<Rightarrow> bytes \<Rightarrow> bytes \<Rightarrow> bool option" where
  "verify0 p key signature data = Some (signature = primitive_byte p # key @ [sum_list data])"

definition clock0 :: "nat \<Rightarrow> int" where
  "clock0 k = 1700000000000 + int k"

definition env0 :: env where
  "env0 =
     \<lparr>base64url_decode = base64url_decode0,
      base64url_encode = base64url_encode0,
      TextDecoder_decode = TextDecoder_decode0,
      TextEncoder_encode = TextEncoder_encode0,
      JSON_parse = JSON_parse0,
      JSON_stringify = stringify,
      sign = sign0,
      verify = verify0,
      clock = clock0\<rparr>"

definition world0 :: world where
  "world0 = \<lparr>reads = 0, calls = []\<rparr>"

definition key0 :: bytes where
  "key0 = [1, 2, 3]"

subsection \<open>Tokens\<close>

text \<open>
  Tokens for the reference environment, with the header and payload they are made of
  and, for those that parse, the token object \<^verbatim>\<open>parseJWT\<close> returns. All are signed with
  \<open>key0\<close> by \<open>sign0\<close> under \<^verbatim>\<open>HS256\<close>.

  \<^item> \<open>token_alice\<close>: header \<^verbatim>\<open>{"alg":"HS256","typ":"JWT"}\<close>, payload
    \<^verbatim>\<open>{"exp":1800000000,"nbf":1600000000,"iat":1700000000,"sub":"alice","aud":["svc-a","svc-b"]}\<close>.
  \<^item> \<open>token_aud_string\<close>: payload \<^verbatim>\<open>{"aud":"svc-a"}\<close>.
  \<^item> \<open>token_aud_number\<close>: payload \<^verbatim>\<open>{"aud":5}\<close>.
  \<^item> \<open>token_typ_lowercase\<close>: header \<^verbatim>\<open>{"alg":"HS256","typ":"jwt"}\<close>, payload \<^verbatim>\<open>{}\<close>.
  \<^item> \<open>token_no_typ\<close>: header \<^verbatim>\<open>{"alg":"HS256"}\<close>, payload \<^verbatim>\<open>{}\<close>.
  \<^item> \<open>token_expired\<close>: payload \<^verbatim>\<open>{"exp":1}\<close>.
  \<^item> \<open>token_far_future\<close>: payload \<^verbatim>\<open>{"exp":10000000000000}\<close>.
  \<^item> \<open>token_inactive\<close>: payload \<^verbatim>\<open>{"nbf":1800000000}\<close>.
  \<^item> \<open>token_not_json\<close>: the three segments are \<^verbatim>\<open>YQ\<close>, the encoding of the text
    \<^verbatim>\<open>a\<close>.
  \<^item> \<open>token_alg_none\<close>: header \<^verbatim>\<open>{"alg":"none"}\<close>, and \<^verbatim>\<open>YQ\<close> for the payload.
  \<^item> \<open>token_array_payload\<close>: header \<^verbatim>\<open>{"alg":"HS256"}\<close>, payload \<^verbatim>\<open>[]\<close>.
\<close>

definition header_HS256 :: json where
  "header_HS256 = JObj [(''alg'', JStr ''HS256''), (''typ'', JStr ''JWT'')]"

definition part_HS256 :: string where
  "part_HS256 = ''eyJhbGciOiJIUzI1NiIsInR5cCI6IkpXVCJ9''"

definition payload_alice :: json where
  "payload_alice =
     JObj [(''exp'', JNum 1800000000), (''nbf'', JNum 1600000000), (''iat'', JNum 1700000000),
           (''sub'', JStr ''alice''), (''aud'', JArr [JStr ''svc-a'', JStr ''svc-b''])]"

definition part_alice :: string where
  "part_alice = ''eyJleHAiOjE4MDAwMDAwMDAsIm5iZiI6MTYwMDAwMDAwMCwiaWF0IjoxNzAwMDAwMDAwLCJzdWIiOiJhbGljZSIsImF1ZCI6WyJzdmMtYSIsInN2Yy1iIl19''"

definition token_alice :: string where
  "token_alice = part_HS256 @ ''.'' @ part_alice @ ''.IAECA7c''"

definition jwt_alice :: JWT where
  "jwt_alice =
     \<lparr>value' = token_alice, header = header_HS256, payload = payload_alice,
      parts = (part_HS256, part_alice, ''IAECA7c''),
      algorithm = ''HS256'', expiresAt = Some (Date 1800000000000), issuer = None,
      subject = Some ''alice'', audiences = Some [''svc-a'', ''svc-b''],
      notBefore = Some (Date 1600000000000), issuedAt = Some (Date 1700000000000),
      jwtId = None\<rparr>"

definition token_aud_string :: string where
  "token_aud_string = part_HS256 @ ''.eyJhdWQiOiJzdmMtYSJ9.IAECA3c''"

definition jwt_aud_string :: JWT where
  "jwt_aud_string =
     \<lparr>value' = token_aud_string, header = header_HS256,
      payload = JObj [(''aud'', JStr ''svc-a'')],
      parts = (part_HS256, ''eyJhdWQiOiJzdmMtYSJ9'', ''IAECA3c''),
      algorithm = ''HS256'', expiresAt = None, issuer = None, subject = None,
      audiences = Some [''svc-a''], notBefore = None, issuedAt = None, jwtId = None\<rparr>"

definition token_aud_number :: string where
  "token_aud_number = part_HS256 @ ''.eyJhdWQiOjV9.IAECA4I''"

definition token_typ_lowercase :: string where
  "token_typ_lowercase = ''eyJhbGciOiJIUzI1NiIsInR5cCI6Imp3dCJ9.e30.IAECA-g''"

definition token_no_typ :: string where
  "token_no_typ = ''eyJhbGciOiJIUzI1NiJ9.e30.IAECA8k''"

definition token_typ_payload_undecodable :: string where
  "token_typ_payload_undecodable = ''eyJhbGciOiJIUzI1NiIsInR5cCI6Imp3dCJ9.!.IAECA-g''"

definition payload_expired :: json where
  "payload_expired = JObj [(''exp'', JNum 1)]"

definition token_expired :: string where
  "token_expired = part_HS256 @ ''.eyJleHAiOjF9.IAECA1g''"

definition jwt_expired :: JWT where
  "jwt_expired =
     \<lparr>value' = token_expired, header = header_HS256, payload = payload_expired,
      parts = (part_HS256, ''eyJleHAiOjF9'', ''IAECA1g''),
      algorithm = ''HS256'', expiresAt = Some (Date 1000), issuer = None, subject = None,
      audiences = None, notBefore = None, issuedAt = None, jwtId = None\<rparr>"

definition token_far_future :: string where
  "token_far_future = part_HS256 @ ''.eyJleHAiOjEwMDAwMDAwMDAwMDAwfQ.IAECA3A''"

definition jwt_far_future :: JWT where
  "jwt_far_future =
     \<lparr>value' = token_far_future, header = header_HS256,
      payload = JObj [(''exp'', JNum 10000000000000)],
      parts = (part_HS256, ''eyJleHAiOjEwMDAwMDAwMDAwMDAwfQ'', ''IAECA3A''),
      algorithm = ''HS256'', expiresAt = Some InvalidDate, issuer = None, subject = None,
      audiences = None, notBefore = None, issuedAt = None, jwtId = None\<rparr>"

definition payload_inactive :: json where
  "payload_inactive = JObj [(''nbf'', JNum 1800000000)]"

definition token_inactive :: string where
  "token_inactive = part_HS256 @ ''.eyJuYmYiOjE4MDAwMDAwMDB9.IAECAyo''"

definition token_alg_none :: string where
  "token_alg_none = ''eyJhbGciOiJub25lIn0.YQ.YQ''"

definition token_not_json :: string where
  "token_not_json = ''YQ.YQ.YQ''"

definition token_array_payload :: string where
  "token_array_payload = ''eyJhbGciOiJIUzI1NiJ9.W10.IAECA7k''"

definition jwt_array_payload :: JWT where
  "jwt_array_payload =
     \<lparr>value' = token_array_payload, header = JObj [(''alg'', JStr ''HS256'')],
      payload = JArr [],
      parts = (''eyJhbGciOiJIUzI1NiJ9'', ''W10'', ''IAECA7k''),
      algorithm = ''HS256'', expiresAt = None, issuer = None, subject = None,
      audiences = None, notBefore = None, issuedAt = None, jwtId = None\<rparr>"

text \<open>
  A call of the second \<^verbatim>\<open>createJWT\<close> that names \<^verbatim>\<open>alg\<close> among its custom header
  fields: \<^verbatim>\<open>createJWT("HS256", key, {}, {headers: {alg: "RS256"}})\<close>.
\<close>

definition options_alg_RS256 :: options where
  "options_alg_RS256 =
     \<lparr>headers = Some [(''alg'', JStr ''RS256'')], expiresIn = None, issuer_option = None,
      subject_option = None, audiences_option = None, notBefore_option = None,
      includeIssuedTimestamp = False, jwtId_option = None\<rparr>"

section \<open>Splitting and joining\<close>

lemma js_split_not_Nil: "js_split sep s \<noteq> []"
  by (induction s) (auto split: list.splits)

lemma js_join_js_split: "js_join [sep] (js_split sep s) = s"
proof (induction s)
  case Nil
  show ?case by simp
next
  case (Cons c s)
  obtain p ps where sp: "js_split sep s = p # ps"
    using js_split_not_Nil[of sep s] by (cases "js_split sep s") auto
  show ?case
  proof (cases "c = sep")
    case True
    with Cons sp show ?thesis by simp
  next
    case False
    with Cons sp show ?thesis by (cases ps) auto
  qed
qed

lemma js_split_no_sep: "sep \<notin> set a \<Longrightarrow> js_split sep a = [a]"
  by (induction a) auto

lemma js_split_append: "sep \<notin> set a \<Longrightarrow> js_split sep (a @ sep # r) = a # js_split sep r"
  by (induction a) auto

lemma js_split_three:
  assumes "sep \<notin> set a" "sep \<notin> set b" "sep \<notin> set c"
  shows "js_split sep (js_join [sep] [a, b, c]) = [a, b, c]"
  using assms by (simp add: js_split_append js_split_no_sep)

section \<open>Reading the claims\<close>

text \<open>
  Each of the seven blocks succeeds exactly when its claim has the type the interface
  gives it, and then assigns the expected field; so \<open>read_claims\<close> succeeds exactly on
  the payloads that satisfy the interface, with every field as expected.
\<close>

lemma read_exp_eq:
  "read_exp pl j =
     (if has_type ''number'' (get_prop pl ''exp'')
      then Some (case date_claim pl ''exp'' of None \<Rightarrow> j | Some d \<Rightarrow> j\<lparr>expiresAt := Some d\<rparr>)
      else None)"
  by (simp add: read_exp_def has_type_def date_claim_def split: option.splits)

lemma read_nbf_eq:
  "read_nbf pl j =
     (if has_type ''number'' (get_prop pl ''nbf'')
      then Some (case date_claim pl ''nbf'' of None \<Rightarrow> j | Some d \<Rightarrow> j\<lparr>notBefore := Some d\<rparr>)
      else None)"
  by (simp add: read_nbf_def has_type_def date_claim_def split: option.splits)

lemma read_iat_eq:
  "read_iat pl j =
     (if has_type ''number'' (get_prop pl ''iat'')
      then Some (case date_claim pl ''iat'' of None \<Rightarrow> j | Some d \<Rightarrow> j\<lparr>issuedAt := Some d\<rparr>)
      else None)"
  by (simp add: read_iat_def has_type_def date_claim_def split: option.splits)

lemma read_iss_eq:
  "read_iss pl j =
     (if has_type ''string'' (get_prop pl ''iss'')
      then Some (case string_claim pl ''iss'' of None \<Rightarrow> j | Some x \<Rightarrow> j\<lparr>issuer := Some x\<rparr>)
      else None)"
  by (simp add: read_iss_def has_type_def string_claim_def split: option.splits)

lemma read_sub_eq:
  "read_sub pl j =
     (if has_type ''string'' (get_prop pl ''sub'')
      then Some (case string_claim pl ''sub'' of None \<Rightarrow> j | Some x \<Rightarrow> j\<lparr>subject := Some x\<rparr>)
      else None)"
  by (simp add: read_sub_def has_type_def string_claim_def split: option.splits)

lemma read_jti_eq:
  "read_jti pl j =
     (if has_type ''string'' (get_prop pl ''jti'')
      then Some (case string_claim pl ''jti'' of None \<Rightarrow> j | Some x \<Rightarrow> j\<lparr>jwtId := Some x\<rparr>)
      else None)"
  by (simp add: read_jti_def has_type_def string_claim_def split: option.splits)

lemma list_ex_not_string:
  "list_ex (\<lambda>item. typeof item \<noteq> ''string'') xs =
   (\<not> list_all (\<lambda>item. typeof item = ''string'') xs)"
  by (induction xs) auto

lemma read_aud_eq:
  "read_aud pl j =
     (if aud_typed (get_prop pl ''aud'')
      then Some (case aud_claim pl of None \<Rightarrow> j | Some x \<Rightarrow> j\<lparr>audiences := Some x\<rparr>)
      else None)"
  by (simp add: read_aud_def aud_typed_def aud_claim_def list_ex_not_string
        split: option.splits)

lemma read_claims_eq:
  "read_claims pl j = (if is_JWTPayload pl then Some (claims_of pl j) else None)"
  unfolding read_claims_def read_exp_eq read_iss_eq read_sub_eq read_aud_eq read_nbf_eq
    read_iat_eq read_jti_eq is_JWTPayload_def claims_of_def
  by (cases "date_claim pl ''exp''"; cases "string_claim pl ''iss''";
      cases "string_claim pl ''sub''"; cases "aud_claim pl"; cases "date_claim pl ''nbf''";
      cases "date_claim pl ''iat''"; cases "string_claim pl ''jti''") simp_all

lemma claims_of_base:
  "value' (claims_of pl j) = value' j" "header (claims_of pl j) = header j"
  "payload (claims_of pl j) = payload j" "parts (claims_of pl j) = parts j"
  "algorithm (claims_of pl j) = algorithm j"
  by (simp_all add: claims_of_def)

lemma claims_of_initial:
  "expiresAt (claims_of pl (initial_JWT t h p ps a)) = date_claim pl ''exp''"
  "notBefore (claims_of pl (initial_JWT t h p ps a)) = date_claim pl ''nbf''"
  "issuedAt (claims_of pl (initial_JWT t h p ps a)) = date_claim pl ''iat''"
  "issuer (claims_of pl (initial_JWT t h p ps a)) = string_claim pl ''iss''"
  "subject (claims_of pl (initial_JWT t h p ps a)) = string_claim pl ''sub''"
  "jwtId (claims_of pl (initial_JWT t h p ps a)) = string_claim pl ''jti''"
  "audiences (claims_of pl (initial_JWT t h p ps a)) = aud_claim pl"
  by (simp_all add: claims_of_def initial_JWT_def split: option.splits)

lemma initial_JWT_base:
  "value' (initial_JWT t h p ps a) = t" "header (initial_JWT t h p ps a) = h"
  "payload (initial_JWT t h p ps a) = p" "parts (initial_JWT t h p ps a) = ps"
  "algorithm (initial_JWT t h p ps a) = a"
  by (simp_all add: initial_JWT_def)

section \<open>The course of \<open>parseJWT\<close>\<close>

lemma isValidAlgorithm_JStr:
  "isValidAlgorithm v \<Longrightarrow> v = JStr (the_string v) \<and> the_string v \<in> set validAlgorithms"
  by (cases v) (auto simp: isValidAlgorithm_def)

lemma get_prop_Some_object: "get_prop v k = Some x \<Longrightarrow> typeof v = ''object'' \<and> v \<noteq> JNull"
  by (cases v) auto

lemma has_type_number: "has_type ''number'' (Some v) \<Longrightarrow> v = JNum (the_number v)"
  by (cases v) (auto simp: has_type_def)

lemma getAlgorithm_valid: "a \<in> set validAlgorithms \<Longrightarrow> \<exists>p. getAlgorithm a = Inr p"
  by (auto simp: validAlgorithms_def getAlgorithm_def ecdsaDictionary_def hmacDictionary_def
        rsassapkcs1v1_5Dictionary_def rsassapssDictionary_def)

lemma getAlgorithm_Inl: "getAlgorithm a = Inl e \<Longrightarrow> e = TypeError ''Invalid algorithm''"
  by (auto simp: getAlgorithm_def split: if_splits option.splits)

text \<open>Once the token has three parts that both decode, the header text decides.\<close>

lemma parseJWT_header_throws:
  assumes "js_split (CHR ''.'') token = [p0, p1, p2]"
    and "base64url_decode E p0 = Some rawHeader"
    and "base64url_decode E p1 = Some rawPayload"
    and "JSON_parse E (TextDecoder_decode E rawHeader) = None"
  shows "parseJWT E token = Inl SyntaxError"
  using assms by (simp add: parseJWT_def)

lemma parseJWT_decoded:
  assumes "js_split (CHR ''.'') token = [p0, p1, p2]"
    and "segment_json E p0 = Some hdr"
    and "base64url_decode E p1 = Some rawPayload"
  shows "parseJWT E token =
     (if typeof hdr \<noteq> ''object'' then Inr None
      else if hdr = JNull then Inr None
      else
        (case get_prop hdr ''alg'' of
           None \<Rightarrow> Inr None
         | Some alg \<Rightarrow>
             if \<not> isValidAlgorithm alg then Inr None
             else if get_prop hdr ''typ'' \<noteq> None \<and> get_prop hdr ''typ'' \<noteq> Some (JStr ''JWT'')
             then Inr None
             else
               (case JSON_parse E (TextDecoder_decode E rawPayload) of
                  None \<Rightarrow> Inl SyntaxError
                | Some pl \<Rightarrow>
                    if typeof pl \<noteq> ''object'' then Inr None
                    else if pl = JNull then Inr None
                    else Inr (read_claims pl
                           (initial_JWT token hdr pl (p0, p1, p2) (the_string alg))))))"
proof -
  from assms(2) obtain rawHeader where
    "base64url_decode E p0 = Some rawHeader"
    "JSON_parse E (TextDecoder_decode E rawHeader) = Some hdr"
    by (auto simp: segment_json_def split: option.splits)
  with assms(1,3) show ?thesis
    unfolding parseJWT_def initial_JWT_def by simp
qed

lemma parseJWT_Some:
  assumes "parseJWT E token = Inr (Some jwt)"
  obtains p0 p1 p2 hdr alg pl where
    "js_split (CHR ''.'') token = [p0, p1, p2]"
    "segment_json E p0 = Some hdr"
    "get_prop hdr ''alg'' = Some alg" "isValidAlgorithm alg"
    "get_prop hdr ''typ'' = None \<or> get_prop hdr ''typ'' = Some (JStr ''JWT'')"
    "segment_json E p1 = Some pl"
    "typeof pl = ''object''" "pl \<noteq> JNull" "is_JWTPayload pl"
    "jwt = claims_of pl (initial_JWT token hdr pl (p0, p1, p2) (the_string alg))"
proof -
  from assms obtain p0 p1 p2 where sp: "js_split (CHR ''.'') token = [p0, p1, p2]"
    by (auto simp: parseJWT_def split: list.splits)
  from assms sp obtain rawHeader where d0: "base64url_decode E p0 = Some rawHeader"
    by (auto simp: parseJWT_def split: option.splits)
  from assms sp d0 obtain rawPayload where d1: "base64url_decode E p1 = Some rawPayload"
    by (auto simp: parseJWT_def split: option.splits)
  from assms sp d0 d1 obtain hdr where "JSON_parse E (TextDecoder_decode E rawHeader) = Some hdr"
    by (auto simp: parseJWT_def split: option.splits)
  with d0 have h: "segment_json E p0 = Some hdr"
    by (simp add: segment_json_def)
  note eq = assms[unfolded parseJWT_decoded[OF sp h d1]]
  from eq obtain alg where a: "get_prop hdr ''alg'' = Some alg"
    by (auto split: if_splits option.splits)
  from eq a have v: "isValidAlgorithm alg"
    and t: "get_prop hdr ''typ'' = None \<or> get_prop hdr ''typ'' = Some (JStr ''JWT'')"
    by (auto split: if_splits)
  from eq a v t obtain pl where "JSON_parse E (TextDecoder_decode E rawPayload) = Some pl"
    by (auto split: if_splits option.splits)
  with d1 eq a v t have p: "segment_json E p1 = Some pl"
    and o: "typeof pl = ''object''" "pl \<noteq> JNull"
    and r: "read_claims pl (initial_JWT token hdr pl (p0, p1, p2) (the_string alg)) = Some jwt"
    by (auto simp: segment_json_def split: if_splits)
  from r have "is_JWTPayload pl"
    and "jwt = claims_of pl (initial_JWT token hdr pl (p0, p1, p2) (the_string alg))"
    by (auto simp: read_claims_eq split: if_splits)
  with sp h a v t p o that show thesis by blast
qed

lemma parseJWT_of_parts:
  assumes sp: "js_split (CHR ''.'') token = [p0, p1, p2]"
    and h: "segment_json E p0 = Some hdr"
    and a: "get_prop hdr ''alg'' = Some (JStr alg)" "alg \<in> set validAlgorithms"
    and t: "get_prop hdr ''typ'' = None \<or> get_prop hdr ''typ'' = Some (JStr ''JWT'')"
    and p: "segment_json E p1 = Some pl"
    and o: "typeof pl = ''object''" "pl \<noteq> JNull" "is_JWTPayload pl"
  shows "parseJWT E token = Inr (Some (claims_of pl (initial_JWT token hdr pl (p0, p1, p2) alg)))"
proof -
  from p obtain rawPayload where d1: "base64url_decode E p1 = Some rawPayload"
    and j: "JSON_parse E (TextDecoder_decode E rawPayload) = Some pl"
    by (auto simp: segment_json_def split: option.splits)
  from a have "typeof hdr = ''object''" "hdr \<noteq> JNull"
    using get_prop_Some_object by blast+
  moreover from a have "isValidAlgorithm (JStr alg)"
    by (simp add: isValidAlgorithm_def)
  ultimately show ?thesis
    using a t j o by (auto simp: parseJWT_decoded[OF sp h d1] read_claims_eq)
qed

lemma parseJWT_payload:
  assumes "parseJWT E token = Inr (Some jwt)"
  shows "is_JWTPayload (payload jwt) \<and>
         expiresAt jwt = date_claim (payload jwt) ''exp'' \<and>
         notBefore jwt = date_claim (payload jwt) ''nbf'' \<and>
         issuedAt jwt = date_claim (payload jwt) ''iat'' \<and>
         issuer jwt = string_claim (payload jwt) ''iss'' \<and>
         subject jwt = string_claim (payload jwt) ''sub'' \<and>
         jwtId jwt = string_claim (payload jwt) ''jti'' \<and>
         audiences jwt = aud_claim (payload jwt)"
proof -
  from assms obtain p0 p1 p2 hdr alg pl where
    "is_JWTPayload pl"
    "jwt = claims_of pl (initial_JWT token hdr pl (p0, p1, p2) (the_string alg))"
    by (rule parseJWT_Some)
  then show ?thesis
    by (simp add: claims_of_base claims_of_initial initial_JWT_base)
qed

lemma parseJWT_algorithm:
  assumes "parseJWT E token = Inr (Some jwt)"
  shows "algorithm jwt \<in> set validAlgorithms \<and>
         get_prop (header jwt) ''alg'' = Some (JStr (algorithm jwt))"
proof -
  from assms obtain p0 p1 p2 hdr alg pl where
    a: "get_prop hdr ''alg'' = Some alg" "isValidAlgorithm alg"
    and j: "jwt = claims_of pl (initial_JWT token hdr pl (p0, p1, p2) (the_string alg))"
    by (rule parseJWT_Some)
  with isValidAlgorithm_JStr[OF a(2)] show ?thesis
    by (simp add: claims_of_base initial_JWT_base)
qed

section \<open>The functions on the tokens of the reference environment\<close>

lemma parseJWT_token_alice: "parseJWT env0 token_alice = Inr (Some jwt_alice)"
  by code_simp

lemma parseJWT_token_aud_string: "parseJWT env0 token_aud_string = Inr (Some jwt_aud_string)"
  by code_simp

lemma parseJWT_token_expired: "parseJWT env0 token_expired = Inr (Some jwt_expired)"
  by code_simp

lemma parseJWT_token_far_future: "parseJWT env0 token_far_future = Inr (Some jwt_far_future)"
  by code_simp

lemma segment_json_part_HS256: "segment_json env0 part_HS256 = Some header_HS256"
  by code_simp

lemma js_split_token_aud_number:
  "js_split (CHR ''.'') token_aud_number = [part_HS256, ''eyJhdWQiOjV9'', ''IAECA4I'']"
  by code_simp

lemma segment_json_aud_number:
  "segment_json env0 ''eyJhdWQiOjV9'' = Some (JObj [(''aud'', JNum 5)])"
  by code_simp

lemma js_split_token_typ_lowercase:
  "js_split (CHR ''.'') token_typ_lowercase =
     [''eyJhbGciOiJIUzI1NiIsInR5cCI6Imp3dCJ9'', ''e30'', ''IAECA-g'']"
  by code_simp

lemma segment_json_typ_lowercase:
  "segment_json env0 ''eyJhbGciOiJIUzI1NiIsInR5cCI6Imp3dCJ9'' =
     Some (JObj [(''alg'', JStr ''HS256''), (''typ'', JStr ''jwt'')])"
  by code_simp

lemma js_split_token_no_typ:
  "js_split (CHR ''.'') token_no_typ = [''eyJhbGciOiJIUzI1NiJ9'', ''e30'', ''IAECA8k'']"
  by code_simp

lemma segment_json_alg_only:
  "segment_json env0 ''eyJhbGciOiJIUzI1NiJ9'' = Some (JObj [(''alg'', JStr ''HS256'')])"
  by code_simp

lemma segment_json_empty_object: "segment_json env0 ''e30'' = Some (JObj [])"
  by code_simp

section \<open>The algorithm-confusion guard\<close>

text \<open>
  Claim C1. For every key and every token whose parsed header \<^verbatim>\<open>alg\<close> differs from the
  algorithm the caller expects, \<^verbatim>\<open>validateJWT\<close> rejects with the error
  \<^verbatim>\<open>Invalid algorithm\<close>, and no signing primitive is invoked on that run: the state of
  the world comes back as it was, with the same log of invocations (and the clock
  unread).
\<close>

theorem validateJWT_algorithm_mismatch:
  assumes "parseJWT E jwt = Inr (Some parsedJWT)"
    and "get_prop (header parsedJWT) ''alg'' = Some (JStr a)"
    and "a \<noteq> alg"
  shows "validateJWT E w alg key jwt = (Inl (Error ''Invalid algorithm''), w) \<and>
         calls (snd (validateJWT E w alg key jwt)) = calls w"
proof -
  from parseJWT_algorithm[OF assms(1)] assms(2) have "algorithm parsedJWT = a"
    by simp
  with assms show ?thesis by (simp add: validateJWT_def)
qed

text \<open>
  The token of the spec's example: built for \<^verbatim>\<open>HS256\<close>, validated with \<^verbatim>\<open>RS256\<close>
  expected.
\<close>

theorem validateJWT_algorithm_mismatch_witness:
  "parseJWT env0 token_alice = Inr (Some jwt_alice) \<and>
   get_prop (header jwt_alice) ''alg'' = Some (JStr ''HS256'') \<and>
   ''HS256'' \<noteq> ''RS256'' \<and>
   validateJWT env0 world0 ''RS256'' key0 token_alice =
     (Inl (Error ''Invalid algorithm''), world0) \<and>
   calls (snd (validateJWT env0 world0 ''RS256'' key0 token_alice)) = calls world0"
proof -
  have h: "get_prop (header jwt_alice) ''alg'' = Some (JStr ''HS256'')"
    by (simp add: jwt_alice_def header_HS256_def)
  have n: "''HS256'' \<noteq> ''RS256''" by simp
  from validateJWT_algorithm_mismatch[OF parseJWT_token_alice h n] parseJWT_token_alice h n
  show ?thesis by blast
qed

section \<open>What a parsed token always satisfies\<close>

text \<open>
  Claim C10. For every string on which \<^verbatim>\<open>parseJWT\<close> succeeds, the token it returns has
  an algorithm field that is one of the twelve supported tags and equals the \<^verbatim>\<open>alg\<close> of
  its decoded header, a value field equal to the input string, and three parts that
  joined with a dot give the input string back. The decoded header is the JSON value
  that the first segment of the input string holds, and that is the header field of the
  token; the three parts are the three segments of the input string.
\<close>

theorem parseJWT_invariants:
  assumes "parseJWT E token = Inr (Some jwt)"
  shows "algorithm jwt \<in> set validAlgorithms \<and>
         length validAlgorithms = 12 \<and> distinct validAlgorithms \<and>
         get_prop (header jwt) ''alg'' = Some (JStr (algorithm jwt)) \<and>
         value' jwt = token \<and>
         (case parts jwt of (p0, p1, p2) \<Rightarrow> js_join ''.'' [p0, p1, p2] = token) \<and>
         (case parts jwt of (p0, p1, p2) \<Rightarrow>
            js_split (CHR ''.'') token = [p0, p1, p2] \<and>
            segment_json E p0 = Some (header jwt))"
proof -
  from assms obtain p0 p1 p2 hdr alg pl where
    sp: "js_split (CHR ''.'') token = [p0, p1, p2]"
    and h: "segment_json E p0 = Some hdr"
    and j: "jwt = claims_of pl (initial_JWT token hdr pl (p0, p1, p2) (the_string alg))"
    by (rule parseJWT_Some)
  have "js_join ''.'' (js_split (CHR ''.'') token) = token"
    by (rule js_join_js_split)
  with sp have "js_join ''.'' [p0, p1, p2] = token" by simp
  moreover have "length validAlgorithms = 12" "distinct validAlgorithms"
    by (simp_all add: validAlgorithms_def)
  ultimately show ?thesis
    using sp h j parseJWT_algorithm[OF assms]
    by (simp add: claims_of_base initial_JWT_base)
qed

theorem parseJWT_invariants_witness:
  "parseJWT env0 token_alice = Inr (Some jwt_alice) \<and>
   algorithm jwt_alice \<in> set validAlgorithms \<and>
   get_prop (header jwt_alice) ''alg'' = Some (JStr (algorithm jwt_alice)) \<and>
   value' jwt_alice = token_alice \<and>
   (case parts jwt_alice of (p0, p1, p2) \<Rightarrow> js_join ''.'' [p0, p1, p2] = token_alice) \<and>
   (case parts jwt_alice of (p0, p1, p2) \<Rightarrow>
      js_split (CHR ''.'') token_alice = [p0, p1, p2] \<and>
      segment_json env0 p0 = Some (header jwt_alice))"
  using parseJWT_invariants[OF parseJWT_token_alice] parseJWT_token_alice by simp

section \<open>The audience claim\<close>

lemma segment_json_decodes: "segment_json E p = Some v \<Longrightarrow> base64url_decode E p \<noteq> None"
  by (auto simp: segment_json_def split: option.splits)

lemma map_JStr_the_string:
  "list_all (\<lambda>item. typeof item = ''string'') xs \<Longrightarrow> map (JStr \<circ> the_string) xs = xs"
proof (induction xs)
  case Nil
  show ?case by simp
next
  case (Cons x xs)
  then show ?case by (cases x) auto
qed

text \<open>
  Claim C7. When the \<^verbatim>\<open>aud\<close> claim of the payload is a string \<open>s\<close>, the token
  \<^verbatim>\<open>parseJWT\<close> returns has the one-element list \<open>[s]\<close> as its audiences; when it is an
  array whose elements are all strings, the audiences are that array unchanged; when it
  is anything else (a number, an array with an element that is not a string), a token
  whose two segments hold JSON values is rejected with \<^verbatim>\<open>null\<close>.
\<close>

theorem parseJWT_audiences:
  "(parseJWT E token = Inr (Some jwt) \<and> get_prop (payload jwt) ''aud'' = Some (JStr s)
      \<longrightarrow> audiences jwt = Some [s]) \<and>
   (parseJWT E token = Inr (Some jwt) \<and> get_prop (payload jwt) ''aud'' = Some (JArr xs) \<and>
    list_all (\<lambda>item. typeof item = ''string'') xs
      \<longrightarrow> (\<exists>as. audiences jwt = Some as \<and> map JStr as = xs)) \<and>
   (js_split (CHR ''.'') token = [p0, p1, p2] \<and>
    segment_json E p0 = Some hdr \<and> segment_json E p1 = Some pl \<and>
    get_prop pl ''aud'' = Some v \<and> typeof v \<noteq> ''string'' \<and>
    \<not> (isArray v \<and> list_all (\<lambda>item. typeof item = ''string'') (the_array v))
      \<longrightarrow> parseJWT E token = Inr None)"
proof (intro conjI impI)
  assume "parseJWT E token = Inr (Some jwt) \<and> get_prop (payload jwt) ''aud'' = Some (JStr s)"
  then show "audiences jwt = Some [s]"
    using parseJWT_payload[of E token jwt] by (simp add: aud_claim_def)
next
  assume "parseJWT E token = Inr (Some jwt) \<and> get_prop (payload jwt) ''aud'' = Some (JArr xs) \<and>
    list_all (\<lambda>item. typeof item = ''string'') xs"
  then show "\<exists>as. audiences jwt = Some as \<and> map JStr as = xs"
    using parseJWT_payload[of E token jwt] by (simp add: aud_claim_def map_JStr_the_string)
next
  assume a: "js_split (CHR ''.'') token = [p0, p1, p2] \<and>
    segment_json E p0 = Some hdr \<and> segment_json E p1 = Some pl \<and>
    get_prop pl ''aud'' = Some v \<and> typeof v \<noteq> ''string'' \<and>
    \<not> (isArray v \<and> list_all (\<lambda>item. typeof item = ''string'') (the_array v))"
  then obtain rawPayload where d1: "base64url_decode E p1 = Some rawPayload"
    and j: "JSON_parse E (TextDecoder_decode E rawPayload) = Some pl"
    by (auto simp: segment_json_def split: option.splits)
  from a have "\<not> aud_typed (Some v)" by (auto simp: aud_typed_def)
  with a have "\<not> is_JWTPayload pl" by (simp add: is_JWTPayload_def)
  with a j show "parseJWT E token = Inr None"
    by (simp add: parseJWT_decoded[of token p0 p1 p2 E hdr rawPayload] d1 read_claims_eq
          split: option.splits)
qed

text \<open>
  The three payloads of the spec's example: \<^verbatim>\<open>{"aud":"svc-a"}\<close>, an array of two
  strings, and \<^verbatim>\<open>{"aud":5}\<close>.
\<close>

theorem parseJWT_audiences_witness:
  "(parseJWT env0 token_aud_string = Inr (Some jwt_aud_string) \<and>
    get_prop (payload jwt_aud_string) ''aud'' = Some (JStr ''svc-a'') \<and>
    audiences jwt_aud_string = Some [''svc-a'']) \<and>
   (parseJWT env0 token_alice = Inr (Some jwt_alice) \<and>
    get_prop (payload jwt_alice) ''aud'' = Some (JArr [JStr ''svc-a'', JStr ''svc-b'']) \<and>
    list_all (\<lambda>item. typeof item = ''string'') [JStr ''svc-a'', JStr ''svc-b''] \<and>
    (\<exists>as. audiences jwt_alice = Some as \<and> map JStr as = [JStr ''svc-a'', JStr ''svc-b''])) \<and>
   (js_split (CHR ''.'') token_aud_number = [part_HS256, ''eyJhdWQiOjV9'', ''IAECA4I''] \<and>
    segment_json env0 part_HS256 = Some header_HS256 \<and>
    segment_json env0 ''eyJhdWQiOjV9'' = Some (JObj [(''aud'', JNum 5)]) \<and>
    get_prop (JObj [(''aud'', JNum 5)]) ''aud'' = Some (JNum 5) \<and>
    typeof (JNum 5) \<noteq> ''string'' \<and>
    \<not> (isArray (JNum 5) \<and> list_all (\<lambda>item. typeof item = ''string'') (the_array (JNum 5))) \<and>
    parseJWT env0 token_aud_number = Inr None)"
proof (intro conjI)
  have s: "get_prop (payload jwt_aud_string) ''aud'' = Some (JStr ''svc-a'')"
    by (simp add: jwt_aud_string_def)
  show "parseJWT env0 token_aud_string = Inr (Some jwt_aud_string)"
    by (rule parseJWT_token_aud_string)
  show "get_prop (payload jwt_aud_string) ''aud'' = Some (JStr ''svc-a'')"
    by (rule s)
  show "audiences jwt_aud_string = Some [''svc-a'']"
    using parseJWT_audiences[where E = env0 and token = token_aud_string and
        jwt = jwt_aud_string and s = "''svc-a''"]
      parseJWT_token_aud_string s by blast
  have a: "get_prop (payload jwt_alice) ''aud'' = Some (JArr [JStr ''svc-a'', JStr ''svc-b''])"
    by (simp add: jwt_alice_def payload_alice_def)
  have l: "list_all (\<lambda>item. typeof item = ''string'') [JStr ''svc-a'', JStr ''svc-b'']"
    by simp
  show "parseJWT env0 token_alice = Inr (Some jwt_alice)"
    by (rule parseJWT_token_alice)
  show "get_prop (payload jwt_alice) ''aud'' = Some (JArr [JStr ''svc-a'', JStr ''svc-b''])"
    by (rule a)
  show "list_all (\<lambda>item. typeof item = ''string'') [JStr ''svc-a'', JStr ''svc-b'']"
    by (rule l)
  show "\<exists>as. audiences jwt_alice = Some as \<and> map JStr as = [JStr ''svc-a'', JStr ''svc-b'']"
    using parseJWT_audiences[where E = env0 and token = token_alice and jwt = jwt_alice and
        xs = "[JStr ''svc-a'', JStr ''svc-b'']"]
      parseJWT_token_alice a l by blast
  have g: "get_prop (JObj [(''aud'', JNum 5)]) ''aud'' = Some (JNum 5)" by simp
  have t: "typeof (JNum 5) \<noteq> ''string''" by simp
  have i: "\<not> (isArray (JNum 5) \<and>
      list_all (\<lambda>item. typeof item = ''string'') (the_array (JNum 5)))" by simp
  show "js_split (CHR ''.'') token_aud_number = [part_HS256, ''eyJhdWQiOjV9'', ''IAECA4I'']"
    by (rule js_split_token_aud_number)
  show "segment_json env0 part_HS256 = Some header_HS256"
    by (rule segment_json_part_HS256)
  show "segment_json env0 ''eyJhdWQiOjV9'' = Some (JObj [(''aud'', JNum 5)])"
    by (rule segment_json_aud_number)
  show "get_prop (JObj [(''aud'', JNum 5)]) ''aud'' = Some (JNum 5)" by (rule g)
  show "typeof (JNum 5) \<noteq> ''string''" by (rule t)
  show "\<not> (isArray (JNum 5) \<and>
      list_all (\<lambda>item. typeof item = ''string'') (the_array (JNum 5)))" by (rule i)
  show "parseJWT env0 token_aud_number = Inr None"
    using parseJWT_audiences[where E = env0 and token = token_aud_number and
        ?p0.0 = part_HS256 and ?p1.0 = "''eyJhdWQiOjV9''" and ?p2.0 = "''IAECA4I''" and
        hdr = header_HS256 and pl = "JObj [(''aud'', JNum 5)]" and v = "JNum 5"]
      js_split_token_aud_number segment_json_part_HS256 segment_json_aud_number g t i
    by blast
qed

section \<open>The header's type\<close>

text \<open>
  Claim C8, as amended. When a token has three parts, its header segment holds a JSON
  value with a \<^verbatim>\<open>typ\<close> field whose value is anything but the string \<^verbatim>\<open>JWT\<close>, and its
  payload segment is one the base64url decoder accepts, \<^verbatim>\<open>parseJWT\<close> rejects the token
  with \<^verbatim>\<open>null\<close>. A header with no \<^verbatim>\<open>typ\<close> field is not rejected on that account: with
  a supported \<^verbatim>\<open>alg\<close> and a payload that satisfies the interface, the token parses.
\<close>

theorem parseJWT_typ:
  "(js_split (CHR ''.'') token = [p0, p1, p2] \<and>
    segment_json E p0 = Some hdr \<and> base64url_decode E p1 \<noteq> None \<and>
    get_prop hdr ''typ'' = Some v \<and> v \<noteq> JStr ''JWT''
      \<longrightarrow> parseJWT E token = Inr None) \<and>
   (js_split (CHR ''.'') token = [p0, p1, p2] \<and>
    segment_json E p0 = Some hdr \<and> get_prop hdr ''typ'' = None \<and>
    get_prop hdr ''alg'' = Some (JStr a) \<and> a \<in> set validAlgorithms \<and>
    segment_json E p1 = Some pl \<and>
    typeof pl = ''object'' \<and> pl \<noteq> JNull \<and> is_JWTPayload pl
      \<longrightarrow> (\<exists>jwt. parseJWT E token = Inr (Some jwt) \<and> header jwt = hdr))"
proof (intro conjI impI)
  assume a: "js_split (CHR ''.'') token = [p0, p1, p2] \<and>
    segment_json E p0 = Some hdr \<and> base64url_decode E p1 \<noteq> None \<and>
    get_prop hdr ''typ'' = Some v \<and> v \<noteq> JStr ''JWT''"
  then obtain rawPayload where d1: "base64url_decode E p1 = Some rawPayload"
    by auto
  from a show "parseJWT E token = Inr None"
    by (simp add: parseJWT_decoded[of token p0 p1 p2 E hdr rawPayload] d1
          split: option.splits)
next
  assume a: "js_split (CHR ''.'') token = [p0, p1, p2] \<and>
    segment_json E p0 = Some hdr \<and> get_prop hdr ''typ'' = None \<and>
    get_prop hdr ''alg'' = Some (JStr a) \<and> a \<in> set validAlgorithms \<and>
    segment_json E p1 = Some pl \<and>
    typeof pl = ''object'' \<and> pl \<noteq> JNull \<and> is_JWTPayload pl"
  then have "parseJWT E token =
      Inr (Some (claims_of pl (initial_JWT token hdr pl (p0, p1, p2) a)))"
    by (intro parseJWT_of_parts) simp_all
  then show "\<exists>jwt. parseJWT E token = Inr (Some jwt) \<and> header jwt = hdr"
    by (simp add: claims_of_base initial_JWT_base)
qed

text \<open>
  \<^verbatim>\<open>typ\<close> is compared case-sensitively: \<^verbatim>\<open>"jwt"\<close> is rejected. A header that has only
  \<^verbatim>\<open>alg\<close> parses.
\<close>

theorem parseJWT_typ_witness:
  "(js_split (CHR ''.'') token_typ_lowercase =
      [''eyJhbGciOiJIUzI1NiIsInR5cCI6Imp3dCJ9'', ''e30'', ''IAECA-g''] \<and>
    segment_json env0 ''eyJhbGciOiJIUzI1NiIsInR5cCI6Imp3dCJ9'' =
      Some (JObj [(''alg'', JStr ''HS256''), (''typ'', JStr ''jwt'')]) \<and>
    base64url_decode env0 ''e30'' \<noteq> None \<and>
    get_prop (JObj [(''alg'', JStr ''HS256''), (''typ'', JStr ''jwt'')]) ''typ'' =
      Some (JStr ''jwt'') \<and>
    JStr ''jwt'' \<noteq> JStr ''JWT'' \<and>
    parseJWT env0 token_typ_lowercase = Inr None) \<and>
   (js_split (CHR ''.'') token_no_typ = [''eyJhbGciOiJIUzI1NiJ9'', ''e30'', ''IAECA8k''] \<and>
    segment_json env0 ''eyJhbGciOiJIUzI1NiJ9'' = Some (JObj [(''alg'', JStr ''HS256'')]) \<and>
    get_prop (JObj [(''alg'', JStr ''HS256'')]) ''typ'' = None \<and>
    get_prop (JObj [(''alg'', JStr ''HS256'')]) ''alg'' = Some (JStr ''HS256'') \<and>
    ''HS256'' \<in> set validAlgorithms \<and>
    segment_json env0 ''e30'' = Some (JObj []) \<and>
    typeof (JObj []) = ''object'' \<and> JObj [] \<noteq> JNull \<and> is_JWTPayload (JObj []) \<and>
    (\<exists>jwt. parseJWT env0 token_no_typ = Inr (Some jwt) \<and>
       header jwt = JObj [(''alg'', JStr ''HS256'')]))"
proof -
  have d: "base64url_decode env0 ''e30'' \<noteq> None"
    by (rule segment_json_decodes[OF segment_json_empty_object])
  have t: "get_prop (JObj [(''alg'', JStr ''HS256''), (''typ'', JStr ''jwt'')]) ''typ'' =
      Some (JStr ''jwt'')" "JStr ''jwt'' \<noteq> JStr ''JWT''"
    by simp_all
  have n: "get_prop (JObj [(''alg'', JStr ''HS256'')]) ''typ'' = None"
    "get_prop (JObj [(''alg'', JStr ''HS256'')]) ''alg'' = Some (JStr ''HS256'')"
    "''HS256'' \<in> set validAlgorithms"
    "typeof (JObj []) = ''object''" "JObj [] \<noteq> JNull" "is_JWTPayload (JObj [])"
    by (simp_all add: validAlgorithms_def is_JWTPayload_def has_type_def aud_typed_def)
  have 1: "parseJWT env0 token_typ_lowercase = Inr None"
    using parseJWT_typ[where E = env0 and token = token_typ_lowercase and
        ?p0.0 = "''eyJhbGciOiJIUzI1NiIsInR5cCI6Imp3dCJ9''" and ?p1.0 = "''e30''" and
        ?p2.0 = "''IAECA-g''" and
        hdr = "JObj [(''alg'', JStr ''HS256''), (''typ'', JStr ''jwt'')]" and
        v = "JStr ''jwt''"]
      js_split_token_typ_lowercase segment_json_typ_lowercase d t by blast
  have 2: "\<exists>jwt. parseJWT env0 token_no_typ = Inr (Some jwt) \<and>
       header jwt = JObj [(''alg'', JStr ''HS256'')]"
    using parseJWT_typ[where E = env0 and token = token_no_typ and
        ?p0.0 = "''eyJhbGciOiJIUzI1NiJ9''" and ?p1.0 = "''e30''" and
        ?p2.0 = "''IAECA8k''" and hdr = "JObj [(''alg'', JStr ''HS256'')]" and
        a = "''HS256''" and pl = "JObj []"]
      js_split_token_no_typ segment_json_alg_only segment_json_empty_object n by blast
  from 1 2 js_split_token_typ_lowercase segment_json_typ_lowercase d t
    js_split_token_no_typ segment_json_alg_only segment_json_empty_object n
  show ?thesis by blast
qed

lemma js_split_token_typ_payload_undecodable:
  "js_split (CHR ''.'') token_typ_payload_undecodable =
     [''eyJhbGciOiJIUzI1NiIsInR5cCI6Imp3dCJ9'', ''!'', ''IAECA-g'']"
  by code_simp

lemma base64url_decode_bang: "base64url_decode env0 ''!'' = None"
  by code_simp

lemma parseJWT_token_typ_payload_undecodable:
  "parseJWT env0 token_typ_payload_undecodable = Inl DecodeError"
  by code_simp

text \<open>
  Claim C8 as stated has every token whose header has such a \<^verbatim>\<open>typ\<close> rejected with
  \<^verbatim>\<open>null\<close>. \<^verbatim>\<open>parseJWT\<close> decodes both segments before it reads the header: with the
  header \<^verbatim>\<open>{"alg":"HS256","typ":"jwt"}\<close> and the payload segment \<^verbatim>\<open>!\<close>, which is outside
  the base64url alphabet, the decoder's error leaves \<^verbatim>\<open>parseJWT\<close> and no \<^verbatim>\<open>null\<close> is
  returned.
\<close>

theorem parseJWT_typ_payload_undecodable:
  "js_split (CHR ''.'') token_typ_payload_undecodable =
     [''eyJhbGciOiJIUzI1NiIsInR5cCI6Imp3dCJ9'', ''!'', ''IAECA-g''] \<and>
   segment_json env0 ''eyJhbGciOiJIUzI1NiIsInR5cCI6Imp3dCJ9'' =
     Some (JObj [(''alg'', JStr ''HS256''), (''typ'', JStr ''jwt'')]) \<and>
   get_prop (JObj [(''alg'', JStr ''HS256''), (''typ'', JStr ''jwt'')]) ''typ'' =
     Some (JStr ''jwt'') \<and>
   JStr ''jwt'' \<noteq> JStr ''JWT'' \<and>
   base64url_decode env0 ''!'' = None \<and>
   parseJWT env0 token_typ_payload_undecodable = Inl DecodeError \<and>
   parseJWT env0 token_typ_payload_undecodable \<noteq> Inr None"
  using js_split_token_typ_payload_undecodable segment_json_typ_lowercase
    base64url_decode_bang parseJWT_token_typ_payload_undecodable
  by simp

section \<open>The time claims\<close>

text \<open>
  Claim C9, as amended. For a payload whose \<^verbatim>\<open>exp\<close>, \<^verbatim>\<open>nbf\<close> or \<^verbatim>\<open>iat\<close> claim is the
  (integer-valued) number \<open>n\<close>, the field \<open>expiresAt\<close>, \<open>notBefore\<close> or \<open>issuedAt\<close> of the
  parsed token is the instant \<open>n * 1000\<close> milliseconds when that instant is one a
  \<^verbatim>\<open>Date\<close> can hold, that is when its magnitude is at most 8640000000000000, and is an
  invalid date otherwise.
\<close>

theorem parseJWT_time_claims:
  assumes "parseJWT E token = Inr (Some jwt)"
  shows "(get_prop (payload jwt) ''exp'' = Some (JNum e) \<longrightarrow>
            expiresAt jwt =
              Some (if \<bar>e * 1000\<bar> \<le> 8640000000000000 then Date (e * 1000) else InvalidDate)) \<and>
         (get_prop (payload jwt) ''nbf'' = Some (JNum b) \<longrightarrow>
            notBefore jwt =
              Some (if \<bar>b * 1000\<bar> \<le> 8640000000000000 then Date (b * 1000) else InvalidDate)) \<and>
         (get_prop (payload jwt) ''iat'' = Some (JNum i) \<longrightarrow>
            issuedAt jwt =
              Some (if \<bar>i * 1000\<bar> \<le> 8640000000000000 then Date (i * 1000) else InvalidDate))"
  using parseJWT_payload[OF assms] by (simp add: date_claim_def new_Date_def)

theorem parseJWT_time_claims_witness:
  "parseJWT env0 token_alice = Inr (Some jwt_alice) \<and>
   get_prop (payload jwt_alice) ''exp'' = Some (JNum 1800000000) \<and>
   expiresAt jwt_alice = Some (Date (1800000000 * 1000)) \<and>
   get_prop (payload jwt_alice) ''nbf'' = Some (JNum 1600000000) \<and>
   notBefore jwt_alice = Some (Date (1600000000 * 1000)) \<and>
   get_prop (payload jwt_alice) ''iat'' = Some (JNum 1700000000) \<and>
   issuedAt jwt_alice = Some (Date (1700000000 * 1000))"
proof -
  have g: "get_prop (payload jwt_alice) ''exp'' = Some (JNum 1800000000)"
    "get_prop (payload jwt_alice) ''nbf'' = Some (JNum 1600000000)"
    "get_prop (payload jwt_alice) ''iat'' = Some (JNum 1700000000)"
    by (simp_all add: jwt_alice_def payload_alice_def)
  from parseJWT_time_claims[OF parseJWT_token_alice, of 1800000000 1600000000 1700000000] g
    parseJWT_token_alice
  show ?thesis by simp
qed

text \<open>
  Claim C9 as stated has the field equal \<open>n * 1000\<close> for every number \<open>n\<close>. With
  \<^verbatim>\<open>{"exp":10000000000000}\<close> the token parses and \<open>expiresAt\<close> is the invalid date, not
  the instant 10000000000000000.
\<close>

theorem parseJWT_exp_out_of_range:
  "parseJWT env0 token_far_future = Inr (Some jwt_far_future) \<and>
   get_prop (payload jwt_far_future) ''exp'' = Some (JNum 10000000000000) \<and>
   expiresAt jwt_far_future = Some InvalidDate \<and>
   expiresAt jwt_far_future \<noteq> Some (Date (10000000000000 * 1000))"
  using parseJWT_token_far_future by (simp add: jwt_far_future_def)

section \<open>Expiration\<close>

lemma clock_env0_world0: "clock env0 (reads world0) = 1700000000000"
  by (simp add: env0_def clock0_def world0_def)

text \<open>
  Claim C6, as amended. For a token that parses, carries the expected algorithm and has
  an \<^verbatim>\<open>exp\<close> claim (the integer-valued number \<open>n\<close>): when \<open>n * 1000\<close> is strictly
  before the reading of the clock, \<^verbatim>\<open>validateJWT\<close> fails with \<^verbatim>\<open>Expired JWT\<close>, having
  read the clock once and invoked no primitive; when \<open>n * 1000\<close> is after the reading
  of the clock and is an instant a \<^verbatim>\<open>Date\<close> can hold, the token passes the expiration
  check (whatever \<^verbatim>\<open>validateJWT\<close> then returns, it is not \<^verbatim>\<open>Expired JWT\<close>); when
  \<open>n * 1000\<close> is not an instant a \<^verbatim>\<open>Date\<close> can hold, its magnitude being above
  8640000000000000, the date is invalid and \<^verbatim>\<open>validateJWT\<close> fails with \<^verbatim>\<open>Expired JWT\<close>,
  wherever the clock stands, again having read the clock once and invoked no primitive.
\<close>

theorem validateJWT_expiration:
  assumes "parseJWT E token = Inr (Some jwt)"
    and "algorithm jwt = alg"
    and "get_prop (payload jwt) ''exp'' = Some (JNum n)"
  shows "(n * 1000 < clock E (reads w) \<longrightarrow>
            validateJWT E w alg key token =
              (Inl (Error ''Expired JWT''), w\<lparr>reads := Suc (reads w)\<rparr>) \<and>
            calls (snd (validateJWT E w alg key token)) = calls w) \<and>
         (clock E (reads w) < n * 1000 \<and> \<bar>n * 1000\<bar> \<le> 8640000000000000 \<longrightarrow>
            fst (validateJWT E w alg key token) \<noteq> Inl (Error ''Expired JWT'')) \<and>
         (8640000000000000 < \<bar>n * 1000\<bar> \<longrightarrow>
            validateJWT E w alg key token =
              (Inl (Error ''Expired JWT''), w\<lparr>reads := Suc (reads w)\<rparr>) \<and>
            calls (snd (validateJWT E w alg key token)) = calls w)"
proof -
  from parseJWT_payload[OF assms(1)] assms(3)
  have e: "expiresAt jwt = Some (new_Date (n * 1000))"
    by (simp add: date_claim_def)
  have past: "n * 1000 < clock E (reads w) \<Longrightarrow>
      \<not> js_less (clock E (reads w)) (getTime (new_Date (n * 1000)))"
    by (simp add: new_Date_def)
  have future: "clock E (reads w) < n * 1000 \<Longrightarrow> \<bar>n * 1000\<bar> \<le> 8640000000000000 \<Longrightarrow>
      js_less (clock E (reads w)) (getTime (new_Date (n * 1000)))"
    by (simp add: new_Date_def)
  show ?thesis
  proof (intro conjI impI)
    assume "n * 1000 < clock E (reads w)"
    from past[OF this] assms(1,2) e
    show "validateJWT E w alg key token =
        (Inl (Error ''Expired JWT''), w\<lparr>reads := Suc (reads w)\<rparr>)"
      by (simp add: validateJWT_def isWithinExpirationDate_def Date_now_def)
    then show "calls (snd (validateJWT E w alg key token)) = calls w" by simp
  next
    assume "clock E (reads w) < n * 1000 \<and> \<bar>n * 1000\<bar> \<le> 8640000000000000"
    then have "js_less (clock E (reads w)) (getTime (new_Date (n * 1000)))"
      using future by simp
    with assms(1,2) e
    show "fst (validateJWT E w alg key token) \<noteq> Inl (Error ''Expired JWT'')"
      by (auto simp: validateJWT_def isWithinExpirationDate_def Date_now_def Let_def
            split: option.splits prod.splits sum.splits dest: getAlgorithm_Inl)
  next
    assume "8640000000000000 < \<bar>n * 1000\<bar>"
    then have "new_Date (n * 1000) = InvalidDate"
      by (simp add: new_Date_def)
    with assms(1,2) e
    show "validateJWT E w alg key token =
        (Inl (Error ''Expired JWT''), w\<lparr>reads := Suc (reads w)\<rparr>)"
      by (simp add: validateJWT_def isWithinExpirationDate_def Date_now_def)
    then show "calls (snd (validateJWT E w alg key token)) = calls w" by simp
  qed
qed

theorem validateJWT_expiration_witness:
  "(parseJWT env0 token_expired = Inr (Some jwt_expired) \<and>
    algorithm jwt_expired = ''HS256'' \<and>
    get_prop (payload jwt_expired) ''exp'' = Some (JNum 1) \<and>
    1 * 1000 < clock env0 (reads world0) \<and>
    validateJWT env0 world0 ''HS256'' key0 token_expired =
      (Inl (Error ''Expired JWT''), world0\<lparr>reads := Suc (reads world0)\<rparr>) \<and>
    calls (snd (validateJWT env0 world0 ''HS256'' key0 token_expired)) = calls world0) \<and>
   (parseJWT env0 token_alice = Inr (Some jwt_alice) \<and>
    algorithm jwt_alice = ''HS256'' \<and>
    get_prop (payload jwt_alice) ''exp'' = Some (JNum 1800000000) \<and>
    clock env0 (reads world0) < 1800000000 * 1000 \<and>
    \<bar>1800000000 * 1000\<bar> \<le> (8640000000000000 :: int) \<and>
    fst (validateJWT env0 world0 ''HS256'' key0 token_alice) \<noteq> Inl (Error ''Expired JWT'')) \<and>
   (parseJWT env0 token_far_future = Inr (Some jwt_far_future) \<and>
    algorithm jwt_far_future = ''HS256'' \<and>
    get_prop (payload jwt_far_future) ''exp'' = Some (JNum 10000000000000) \<and>
    (8640000000000000 :: int) < \<bar>10000000000000 * 1000\<bar> \<and>
    validateJWT env0 world0 ''HS256'' key0 token_far_future =
      (Inl (Error ''Expired JWT''), world0\<lparr>reads := Suc (reads world0)\<rparr>) \<and>
    calls (snd (validateJWT env0 world0 ''HS256'' key0 token_far_future)) = calls world0)"
proof -
  have x: "algorithm jwt_expired = ''HS256''"
    "get_prop (payload jwt_expired) ''exp'' = Some (JNum 1)"
    "1 * 1000 < clock env0 (reads world0)"
    by (simp_all add: jwt_expired_def payload_expired_def clock_env0_world0)
  have a: "algorithm jwt_alice = ''HS256''"
    "get_prop (payload jwt_alice) ''exp'' = Some (JNum 1800000000)"
    "clock env0 (reads world0) < 1800000000 * 1000"
    "\<bar>1800000000 * 1000\<bar> \<le> (8640000000000000 :: int)"
    by (simp_all add: jwt_alice_def payload_alice_def clock_env0_world0)
  have f: "algorithm jwt_far_future = ''HS256''"
    "get_prop (payload jwt_far_future) ''exp'' = Some (JNum 10000000000000)"
    "(8640000000000000 :: int) < \<bar>10000000000000 * 1000\<bar>"
    by (simp_all add: jwt_far_future_def)
  from validateJWT_expiration[OF parseJWT_token_expired x(1) x(2), of world0 key0]
    validateJWT_expiration[OF parseJWT_token_alice a(1) a(2), of world0 key0]
    validateJWT_expiration[OF parseJWT_token_far_future f(1) f(2), of world0 key0]
    parseJWT_token_expired parseJWT_token_alice parseJWT_token_far_future x a f
  show ?thesis by blast
qed

text \<open>
  Claim C6 as stated lets every \<^verbatim>\<open>exp\<close> in the future pass. The token with
  \<^verbatim>\<open>{"exp":10000000000000}\<close> expires long after the clock's reading, its date is
  invalid, and \<^verbatim>\<open>validateJWT\<close> rejects it as expired.
\<close>

theorem validateJWT_far_future_expired:
  "parseJWT env0 token_far_future = Inr (Some jwt_far_future) \<and>
   algorithm jwt_far_future = ''HS256'' \<and>
   get_prop (payload jwt_far_future) ''exp'' = Some (JNum 10000000000000) \<and>
   clock env0 (reads world0) < 10000000000000 * 1000 \<and>
   fst (validateJWT env0 world0 ''HS256'' key0 token_far_future) = Inl (Error ''Expired JWT'')"
  using parseJWT_token_far_future
  by (simp add: validateJWT_def jwt_far_future_def isWithinExpirationDate_def Date_now_def
        clock_env0_world0)

section \<open>Building a token and validating it\<close>

lemma createJWT_ok:
  assumes "get_prop hdr ''alg'' = Some (JStr alg)"
    and "getAlgorithm alg = Inr prim"
    and "sign E prim key (signing_input E hdr pl) = Some sg"
  shows "createJWT E w key hdr pl =
     (Inr (js_join ''.''
        [base64url_encode E (TextEncoder_encode E (JSON_stringify E hdr)),
         base64url_encode E (TextEncoder_encode E (JSON_stringify E pl)),
         base64url_encode E sg]),
      w\<lparr>calls := calls w @ [Sign prim key (signing_input E hdr pl)]\<rparr>)"
  using assms by (simp add: createJWT_def getAlgorithm_of_def signing_input_def Let_def)

lemma survives_codec_segment:
  "survives_codec E v \<Longrightarrow>
   segment_json E (base64url_encode E (TextEncoder_encode E (JSON_stringify E v))) = Some v"
  by (simp add: survives_codec_def segment_json_def Let_def)

text \<open>
  Claim C2, as amended. Take a header whose \<^verbatim>\<open>alg\<close> is a supported tag (and whose
  \<^verbatim>\<open>typ\<close>, if any, is \<^verbatim>\<open>JWT\<close>) and a payload that satisfies the interface, whose \<^verbatim>\<open>exp\<close>,
  if present, is after the clock's reading and an instant a \<^verbatim>\<open>Date\<close> can hold, and whose
  \<^verbatim>\<open>nbf\<close>, if present, is not after the clock's reading. Let the collaborators carry the
  header, the payload and the signature through encoding and back, let the primitive
  sign with the key, and let it verify that signature for the same key and data. Then
  \<^verbatim>\<open>createJWT\<close> returns a token, and \<^verbatim>\<open>validateJWT\<close> with the same algorithm and key
  returns a token object whose header and payload are the ones given.
\<close>

theorem createJWT_validateJWT:
  assumes hdr: "get_prop hdr ''alg'' = Some (JStr alg)" "alg \<in> set validAlgorithms"
      "get_prop hdr ''typ'' = None \<or> get_prop hdr ''typ'' = Some (JStr ''JWT'')"
    and pl: "typeof pl = ''object''" "pl \<noteq> JNull" "is_JWTPayload pl"
    and codec: "survives_codec E hdr" "survives_codec E pl"
    and prim: "getAlgorithm alg = Inr prim"
      "sign E prim key (signing_input E hdr pl) = Some sg"
      "verify E prim key sg (signing_input E hdr pl) = Some True"
      "survives_base64url E sg"
    and exp: "\<forall>n. get_prop pl ''exp'' = Some (JNum n) \<longrightarrow>
        clock E (reads w) < n * 1000 \<and> \<bar>n * 1000\<bar> \<le> 8640000000000000"
    and nbf: "\<forall>n. get_prop pl ''nbf'' = Some (JNum n) \<longrightarrow>
        n * 1000 \<le> clock E (if get_prop pl ''exp'' = None then reads w else Suc (reads w))"
  shows "\<exists>token w1 jwt w2.
           createJWT E w key hdr pl = (Inr token, w1) \<and>
           validateJWT E w1 alg key token = (Inr jwt, w2) \<and>
           header jwt = hdr \<and> payload jwt = pl \<and> algorithm jwt = alg \<and>
           value' jwt = token"
proof -
  define hp where "hp = base64url_encode E (TextEncoder_encode E (JSON_stringify E hdr))"
  define pp where "pp = base64url_encode E (TextEncoder_encode E (JSON_stringify E pl))"
  define sp where "sp = base64url_encode E sg"
  define token where "token = js_join ''.'' [hp, pp, sp]"
  define w1 where "w1 = w\<lparr>calls := calls w @ [Sign prim key (signing_input E hdr pl)]\<rparr>"
  define jwt where "jwt = claims_of pl (initial_JWT token hdr pl (hp, pp, sp) alg)"
  have c: "createJWT E w key hdr pl = (Inr token, w1)"
    unfolding token_def w1_def hp_def pp_def sp_def
    by (rule createJWT_ok[OF hdr(1) prim(1) prim(2)])
  from codec prim(4) have nodot: "CHR ''.'' \<notin> set hp" "CHR ''.'' \<notin> set pp" "CHR ''.'' \<notin> set sp"
    and dec: "base64url_decode E sp = Some sg"
    by (simp_all add: survives_codec_def survives_base64url_def Let_def hp_def pp_def sp_def)
  have seg: "segment_json E hp = Some hdr" "segment_json E pp = Some pl"
    unfolding hp_def pp_def by (rule survives_codec_segment[OF codec(1)],
      rule survives_codec_segment[OF codec(2)])
  have split: "js_split (CHR ''.'') token = [hp, pp, sp]"
    unfolding token_def by (rule js_split_three[OF nodot])
  have p: "parseJWT E token = Inr (Some jwt)"
    unfolding jwt_def
    by (rule parseJWT_of_parts[OF split seg(1) hdr seg(2) pl])
  have base: "header jwt = hdr" "payload jwt = pl" "algorithm jwt = alg" "value' jwt = token"
    "parts jwt = (hp, pp, sp)"
    by (simp_all add: jwt_def claims_of_base initial_JWT_base)
  have fields: "expiresAt jwt = date_claim pl ''exp''" "notBefore jwt = date_claim pl ''nbf''"
    by (simp_all add: jwt_def claims_of_initial)
  have data: "TextEncoder_encode E (hp @ ''.'' @ pp) = signing_input E hdr pl"
    by (simp add: signing_input_def hp_def pp_def)
  have rd: "reads w1 = reads w" by (simp add: w1_def)
  have expd: "\<And>v. get_prop pl ''exp'' = Some v \<Longrightarrow>
      js_less (clock E (reads w)) (getTime (new_Date (the_number v * 1000)))"
  proof -
    fix v assume g: "get_prop pl ''exp'' = Some v"
    with pl(3) have "v = JNum (the_number v)"
      by (simp add: is_JWTPayload_def has_type_number)
    with g have "get_prop pl ''exp'' = Some (JNum (the_number v))" by simp
    with exp have "clock E (reads w) < the_number v * 1000 \<and>
        \<bar>the_number v * 1000\<bar> \<le> 8640000000000000" by blast
    then show "js_less (clock E (reads w)) (getTime (new_Date (the_number v * 1000)))"
      by (simp add: new_Date_def)
  qed
  have nbfd: "\<And>v k. get_prop pl ''nbf'' = Some v \<Longrightarrow>
      k = (if get_prop pl ''exp'' = None then reads w else Suc (reads w)) \<Longrightarrow>
      \<not> js_less (clock E k) (getTime (new_Date (the_number v * 1000)))"
  proof -
    fix v k assume g: "get_prop pl ''nbf'' = Some v"
      and k: "k = (if get_prop pl ''exp'' = None then reads w else Suc (reads w))"
    with pl(3) have "v = JNum (the_number v)"
      by (simp add: is_JWTPayload_def has_type_number)
    with g have "get_prop pl ''nbf'' = Some (JNum (the_number v))" by simp
    with nbf have "the_number v * 1000 \<le>
        clock E (if get_prop pl ''exp'' = None then reads w else Suc (reads w))" by blast
    with k have "the_number v * 1000 \<le> clock E k" by simp
    then show "\<not> js_less (clock E k) (getTime (new_Date (the_number v * 1000)))"
      by (simp add: new_Date_def)
  qed
  have v: "\<exists>w2. validateJWT E w1 alg key token = (Inr jwt, w2)"
    using p base fields data rd prim dec expd nbfd
    by (cases "get_prop pl ''exp''"; cases "get_prop pl ''nbf''")
       (simp_all add: validateJWT_def isWithinExpirationDate_def Date_now_def date_claim_def)
  with c base show ?thesis by blast
qed

text \<open>The reference environment on the header and payload of \<open>token_alice\<close>.\<close>

lemma survives_codec_header_HS256: "survives_codec env0 header_HS256"
  by code_simp

lemma survives_codec_payload_alice: "survives_codec env0 payload_alice"
  by code_simp

lemma sign_alice:
  "sign env0 (HMAC SHA_256) key0 (signing_input env0 header_HS256 payload_alice) =
     Some [32, 1, 2, 3, 183]"
  by code_simp

lemma verify_alice:
  "verify env0 (HMAC SHA_256) key0 [32, 1, 2, 3, 183]
     (signing_input env0 header_HS256 payload_alice) = Some True"
  by code_simp

lemma survives_base64url_signature_alice: "survives_base64url env0 [32, 1, 2, 3, 183]"
  by code_simp

lemma getAlgorithm_HS256: "getAlgorithm ''HS256'' = Inr (HMAC SHA_256)"
  by (simp add: getAlgorithm_def hmacDictionary_def)

lemma createJWT_alice:
  "fst (createJWT env0 world0 key0 header_HS256 payload_alice) = Inr token_alice"
  by code_simp

lemma verify_sign_env0:
  "sign env0 p key data = Some sg \<Longrightarrow> verify env0 p key sg data = Some True"
  by (auto simp: env0_def sign0_def verify0_def)

theorem createJWT_validateJWT_witness:
  "get_prop header_HS256 ''alg'' = Some (JStr ''HS256'') \<and>
   ''HS256'' \<in> set validAlgorithms \<and>
   get_prop header_HS256 ''typ'' = Some (JStr ''JWT'') \<and>
   typeof payload_alice = ''object'' \<and> payload_alice \<noteq> JNull \<and> is_JWTPayload payload_alice \<and>
   survives_codec env0 header_HS256 \<and> survives_codec env0 payload_alice \<and>
   getAlgorithm ''HS256'' = Inr (HMAC SHA_256) \<and>
   sign env0 (HMAC SHA_256) key0 (signing_input env0 header_HS256 payload_alice) =
     Some [32, 1, 2, 3, 183] \<and>
   verify env0 (HMAC SHA_256) key0 [32, 1, 2, 3, 183]
     (signing_input env0 header_HS256 payload_alice) = Some True \<and>
   survives_base64url env0 [32, 1, 2, 3, 183] \<and>
   get_prop payload_alice ''exp'' = Some (JNum 1800000000) \<and>
   clock env0 (reads world0) < 1800000000 * 1000 \<and>
   get_prop payload_alice ''nbf'' = Some (JNum 1600000000) \<and>
   1600000000 * 1000 \<le> clock env0 (Suc (reads world0)) \<and>
   fst (createJWT env0 world0 key0 header_HS256 payload_alice) = Inr token_alice \<and>
   (\<exists>token w1 jwt w2.
      createJWT env0 world0 key0 header_HS256 payload_alice = (Inr token, w1) \<and>
      validateJWT env0 w1 ''HS256'' key0 token = (Inr jwt, w2) \<and>
      header jwt = header_HS256 \<and> payload jwt = payload_alice \<and>
      algorithm jwt = ''HS256'' \<and> value' jwt = token)"
proof -
  have h: "get_prop header_HS256 ''alg'' = Some (JStr ''HS256'')"
    "''HS256'' \<in> set validAlgorithms"
    "get_prop header_HS256 ''typ'' = Some (JStr ''JWT'')"
    by (simp_all add: header_HS256_def validAlgorithms_def)
  have p: "typeof payload_alice = ''object''" "payload_alice \<noteq> JNull"
    "is_JWTPayload payload_alice"
    by (simp_all add: payload_alice_def is_JWTPayload_def has_type_def aud_typed_def)
  have g: "get_prop payload_alice ''exp'' = Some (JNum 1800000000)"
    "get_prop payload_alice ''nbf'' = Some (JNum 1600000000)"
    by (simp_all add: payload_alice_def)
  have t: "clock env0 (reads world0) < 1800000000 * 1000"
    "1600000000 * 1000 \<le> clock env0 (Suc (reads world0))"
    by (simp_all add: env0_def clock0_def world0_def)
  have e: "\<forall>n. get_prop payload_alice ''exp'' = Some (JNum n) \<longrightarrow>
      clock env0 (reads world0) < n * 1000 \<and> \<bar>n * 1000\<bar> \<le> 8640000000000000"
    using g(1) t(1) by auto
  have b: "\<forall>n. get_prop payload_alice ''nbf'' = Some (JNum n) \<longrightarrow>
      n * 1000 \<le> clock env0
        (if get_prop payload_alice ''exp'' = None then reads world0 else Suc (reads world0))"
    using g t(2) by auto
  have "\<exists>token w1 jwt w2.
      createJWT env0 world0 key0 header_HS256 payload_alice = (Inr token, w1) \<and>
      validateJWT env0 w1 ''HS256'' key0 token = (Inr jwt, w2) \<and>
      header jwt = header_HS256 \<and> payload jwt = payload_alice \<and>
      algorithm jwt = ''HS256'' \<and> value' jwt = token"
    by (rule createJWT_validateJWT[OF h(1) h(2) disjI2[OF h(3)] p
          survives_codec_header_HS256 survives_codec_payload_alice getAlgorithm_HS256
          sign_alice verify_alice survives_base64url_signature_alice e b])
  with h p g t survives_codec_header_HS256 survives_codec_payload_alice getAlgorithm_HS256
    sign_alice verify_alice survives_base64url_signature_alice createJWT_alice
  show ?thesis by blast
qed

lemma createJWT_inactive:
  "fst (createJWT env0 world0 key0 header_HS256 payload_inactive) = Inr token_inactive"
  by code_simp

lemma validateJWT_created_inactive:
  "fst (validateJWT env0 (snd (createJWT env0 world0 key0 header_HS256 payload_inactive))
          ''HS256'' key0 token_inactive) = Inl (Error ''Inactive JWT'')"
  by code_simp

lemma verify_inactive:
  "verify env0 (HMAC SHA_256) key0 [32, 1, 2, 3, 42]
     (signing_input env0 header_HS256 payload_inactive) = Some True"
  by code_simp

lemma sign_inactive:
  "sign env0 (HMAC SHA_256) key0 (signing_input env0 header_HS256 payload_inactive) =
     Some [32, 1, 2, 3, 42]"
  by code_simp

text \<open>
  Claim C2 as stated has every claim set validate. In the reference environment, where
  a signature always verifies for its own key and data, the token built for the
  payload \<^verbatim>\<open>{"nbf":1800000000}\<close> is rejected as not yet active: the clock reads
  1700000000000.
\<close>

theorem createJWT_validateJWT_inactive:
  "get_prop header_HS256 ''alg'' = Some (JStr ''HS256'') \<and>
   ''HS256'' \<in> set validAlgorithms \<and>
   is_JWTPayload payload_inactive \<and>
   sign env0 (HMAC SHA_256) key0 (signing_input env0 header_HS256 payload_inactive) =
     Some [32, 1, 2, 3, 42] \<and>
   verify env0 (HMAC SHA_256) key0 [32, 1, 2, 3, 42]
     (signing_input env0 header_HS256 payload_inactive) = Some True \<and>
   fst (createJWT env0 world0 key0 header_HS256 payload_inactive) = Inr token_inactive \<and>
   fst (validateJWT env0 (snd (createJWT env0 world0 key0 header_HS256 payload_inactive))
          ''HS256'' key0 token_inactive) = Inl (Error ''Inactive JWT'')"
  using createJWT_inactive validateJWT_created_inactive sign_inactive verify_inactive
  by (simp add: header_HS256_def validAlgorithms_def payload_inactive_def is_JWTPayload_def
        has_type_def aud_typed_def)

section \<open>Segments that are not JSON\<close>

lemma validateJWT_throws:
  "parseJWT E jwt = Inl e \<Longrightarrow> validateJWT E w alg key jwt = (Inl e, w)"
  by (simp add: validateJWT_def)

lemma js_split_token_not_json:
  "js_split (CHR ''.'') token_not_json = [''YQ'', ''YQ'', ''YQ'']"
  by code_simp

lemma JSON_parse_a: "JSON_parse env0 ''a'' = None"
  by code_simp

lemma parseJWT_token_not_json: "parseJWT env0 token_not_json = Inl SyntaxError"
  by code_simp

lemma segment_json_text:
  "segment_json E p = (case segment_text E p of None \<Rightarrow> None | Some t \<Rightarrow> JSON_parse E t)"
  by (simp add: segment_json_def segment_text_def split: option.splits)

lemma parseJWT_accepted:
  assumes "js_split (CHR ''.'') token = [p0, p1, p2]"
    and "segment_json E p0 = Some hdr"
    and "segment_text E p1 = Some t"
  shows "parseJWT E token =
     (if accepted_header hdr then
        (case JSON_parse E t of
           None \<Rightarrow> Inl SyntaxError
         | Some pl \<Rightarrow>
             if typeof pl = ''object'' \<and> pl \<noteq> JNull \<and> is_JWTPayload pl
             then Inr (Some (claims_of pl
                    (initial_JWT token hdr pl (p0, p1, p2)
                       (the_string (the (get_prop hdr ''alg''))))))
             else Inr None)
      else Inr None)"
proof -
  from assms(3) obtain rawPayload where d1: "base64url_decode E p1 = Some rawPayload"
    and t: "t = TextDecoder_decode E rawPayload"
    by (auto simp: segment_text_def)
  show ?thesis
  proof (cases "get_prop hdr ''alg''")
    case None
    then show ?thesis
      by (simp add: parseJWT_decoded[OF assms(1,2) d1] accepted_header_def)
  next
    case (Some a)
    then have "typeof hdr = ''object''" "hdr \<noteq> JNull"
      using get_prop_Some_object by blast+
    with Some show ?thesis
      by (auto simp: parseJWT_decoded[OF assms(1,2) d1] accepted_header_def t read_claims_eq
            split: option.splits)
  qed
qed

text \<open>
  Claim C4, as amended. For a token of three parts whose first two decode: when the
  header text is not valid JSON, \<^verbatim>\<open>parseJWT\<close> throws the \<^verbatim>\<open>SyntaxError\<close> of
  \<^verbatim>\<open>JSON.parse\<close>, and so does \<^verbatim>\<open>validateJWT\<close>; when the header is one that
  \<^verbatim>\<open>parseJWT\<close> lets through and the payload text is not valid JSON, the same; when the
  header holds JSON but is not let through, the token is rejected with \<^verbatim>\<open>null\<close>
  (\<^verbatim>\<open>Invalid JWT\<close> from \<^verbatim>\<open>validateJWT\<close>) before the payload text is looked at. In every
  case the token is rejected.
\<close>

theorem parseJWT_invalid_JSON:
  "(js_split (CHR ''.'') token = [p0, p1, p2] \<and>
    segment_text E p0 = Some t0 \<and> base64url_decode E p1 \<noteq> None \<and> JSON_parse E t0 = None
      \<longrightarrow> parseJWT E token = Inl SyntaxError \<and>
          validateJWT E w alg key token = (Inl SyntaxError, w)) \<and>
   (js_split (CHR ''.'') token = [p0, p1, p2] \<and>
    segment_json E p0 = Some hdr \<and> accepted_header hdr \<and>
    segment_text E p1 = Some t1 \<and> JSON_parse E t1 = None
      \<longrightarrow> parseJWT E token = Inl SyntaxError \<and>
          validateJWT E w alg key token = (Inl SyntaxError, w)) \<and>
   (js_split (CHR ''.'') token = [p0, p1, p2] \<and>
    segment_json E p0 = Some hdr \<and> \<not> accepted_header hdr \<and>
    segment_text E p1 = Some t1 \<and> JSON_parse E t1 = None
      \<longrightarrow> parseJWT E token = Inr None \<and>
          validateJWT E w alg key token = (Inl (Error ''Invalid JWT''), w))"
proof (intro conjI impI)
  assume a: "js_split (CHR ''.'') token = [p0, p1, p2] \<and>
    segment_text E p0 = Some t0 \<and> base64url_decode E p1 \<noteq> None \<and> JSON_parse E t0 = None"
  then obtain rawHeader rawPayload where
    "base64url_decode E p0 = Some rawHeader" "t0 = TextDecoder_decode E rawHeader"
    "base64url_decode E p1 = Some rawPayload"
    by (auto simp: segment_text_def)
  with a show p: "parseJWT E token = Inl SyntaxError"
    using parseJWT_header_throws[of token p0 p1 p2 E rawHeader rawPayload] by simp
  show "validateJWT E w alg key token = (Inl SyntaxError, w)"
    by (rule validateJWT_throws[OF p])
next
  assume a: "js_split (CHR ''.'') token = [p0, p1, p2] \<and>
    segment_json E p0 = Some hdr \<and> accepted_header hdr \<and>
    segment_text E p1 = Some t1 \<and> JSON_parse E t1 = None"
  then show p: "parseJWT E token = Inl SyntaxError"
    by (simp add: parseJWT_accepted[of token p0 p1 p2 E hdr t1])
  show "validateJWT E w alg key token = (Inl SyntaxError, w)"
    by (rule validateJWT_throws[OF p])
next
  assume a: "js_split (CHR ''.'') token = [p0, p1, p2] \<and>
    segment_json E p0 = Some hdr \<and> \<not> accepted_header hdr \<and>
    segment_text E p1 = Some t1 \<and> JSON_parse E t1 = None"
  then show p: "parseJWT E token = Inr None"
    by (simp add: parseJWT_accepted[of token p0 p1 p2 E hdr t1])
  then show "validateJWT E w alg key token = (Inl (Error ''Invalid JWT''), w)"
    by (simp add: validateJWT_def)
qed

lemma segment_text_YQ: "segment_text env0 ''YQ'' = Some ''a''"
  by code_simp

lemma js_split_payload_not_json:
  "js_split (CHR ''.'') ''eyJhbGciOiJIUzI1NiJ9.YQ.YQ'' = [''eyJhbGciOiJIUzI1NiJ9'', ''YQ'', ''YQ'']"
  by code_simp

lemma js_split_token_alg_none:
  "js_split (CHR ''.'') token_alg_none = [''eyJhbGciOiJub25lIn0'', ''YQ'', ''YQ'']"
  by code_simp

lemma segment_json_alg_none:
  "segment_json env0 ''eyJhbGciOiJub25lIn0'' = Some (JObj [(''alg'', JStr ''none'')])"
  by code_simp

theorem parseJWT_invalid_JSON_witness:
  "(js_split (CHR ''.'') token_not_json = [''YQ'', ''YQ'', ''YQ''] \<and>
    segment_text env0 ''YQ'' = Some ''a'' \<and> base64url_decode env0 ''YQ'' \<noteq> None \<and>
    JSON_parse env0 ''a'' = None \<and>
    parseJWT env0 token_not_json = Inl SyntaxError \<and>
    validateJWT env0 world0 ''HS256'' key0 token_not_json = (Inl SyntaxError, world0)) \<and>
   (js_split (CHR ''.'') ''eyJhbGciOiJIUzI1NiJ9.YQ.YQ'' =
      [''eyJhbGciOiJIUzI1NiJ9'', ''YQ'', ''YQ''] \<and>
    segment_json env0 ''eyJhbGciOiJIUzI1NiJ9'' = Some (JObj [(''alg'', JStr ''HS256'')]) \<and>
    accepted_header (JObj [(''alg'', JStr ''HS256'')]) \<and>
    parseJWT env0 ''eyJhbGciOiJIUzI1NiJ9.YQ.YQ'' = Inl SyntaxError \<and>
    validateJWT env0 world0 ''HS256'' key0 ''eyJhbGciOiJIUzI1NiJ9.YQ.YQ'' =
      (Inl SyntaxError, world0)) \<and>
   (js_split (CHR ''.'') token_alg_none = [''eyJhbGciOiJub25lIn0'', ''YQ'', ''YQ''] \<and>
    segment_json env0 ''eyJhbGciOiJub25lIn0'' = Some (JObj [(''alg'', JStr ''none'')]) \<and>
    \<not> accepted_header (JObj [(''alg'', JStr ''none'')]) \<and>
    parseJWT env0 token_alg_none = Inr None \<and>
    validateJWT env0 world0 ''HS256'' key0 token_alg_none =
      (Inl (Error ''Invalid JWT''), world0))"
proof -
  have d: "base64url_decode env0 ''YQ'' \<noteq> None"
    using segment_text_YQ by (auto simp: segment_text_def)
  have h: "accepted_header (JObj [(''alg'', JStr ''HS256'')])"
    "\<not> accepted_header (JObj [(''alg'', JStr ''none'')])"
    by (simp_all add: accepted_header_def isValidAlgorithm_def validAlgorithms_def)
  note t = parseJWT_invalid_JSON[where E = env0 and w = world0 and alg = "''HS256''" and
      key = key0 and ?t0.0 = "''a''" and ?t1.0 = "''a''" and ?p1.0 = "''YQ''" and
      ?p2.0 = "''YQ''"]
  have 1: "parseJWT env0 token_not_json = Inl SyntaxError \<and>
      validateJWT env0 world0 ''HS256'' key0 token_not_json = (Inl SyntaxError, world0)"
    using t[where token = token_not_json and ?p0.0 = "''YQ''"]
      js_split_token_not_json segment_text_YQ d JSON_parse_a by blast
  have 2: "parseJWT env0 ''eyJhbGciOiJIUzI1NiJ9.YQ.YQ'' = Inl SyntaxError \<and>
      validateJWT env0 world0 ''HS256'' key0 ''eyJhbGciOiJIUzI1NiJ9.YQ.YQ'' =
        (Inl SyntaxError, world0)"
    using t[where token = "''eyJhbGciOiJIUzI1NiJ9.YQ.YQ''" and
        ?p0.0 = "''eyJhbGciOiJIUzI1NiJ9''" and hdr = "JObj [(''alg'', JStr ''HS256'')]"]
      js_split_payload_not_json segment_json_alg_only h(1) segment_text_YQ JSON_parse_a
    by blast
  have 3: "parseJWT env0 token_alg_none = Inr None \<and>
      validateJWT env0 world0 ''HS256'' key0 token_alg_none =
        (Inl (Error ''Invalid JWT''), world0)"
    using t[where token = token_alg_none and ?p0.0 = "''eyJhbGciOiJub25lIn0''" and
        hdr = "JObj [(''alg'', JStr ''none'')]"]
      js_split_token_alg_none segment_json_alg_none h(2) segment_text_YQ JSON_parse_a
    by blast
  from 1 2 3 js_split_token_not_json segment_text_YQ d JSON_parse_a
    js_split_payload_not_json segment_json_alg_only h js_split_token_alg_none
    segment_json_alg_none
  show ?thesis by blast
qed

text \<open>
  Claim C4 as stated has \<^verbatim>\<open>parseJWT\<close> return \<^verbatim>\<open>null\<close>, and \<^verbatim>\<open>validateJWT\<close> report
  \<^verbatim>\<open>Invalid JWT\<close>, with no other error or exception. On the token \<^verbatim>\<open>YQ.YQ.YQ\<close>, whose
  header text is \<^verbatim>\<open>a\<close>, both throw the \<^verbatim>\<open>SyntaxError\<close>.
\<close>

theorem parseJWT_invalid_JSON_not_null:
  "js_split (CHR ''.'') token_not_json = [''YQ'', ''YQ'', ''YQ''] \<and>
   segment_text env0 ''YQ'' = Some ''a'' \<and> JSON_parse env0 ''a'' = None \<and>
   parseJWT env0 token_not_json = Inl SyntaxError \<and>
   parseJWT env0 token_not_json \<noteq> Inr None \<and>
   fst (validateJWT env0 world0 ''HS256'' key0 token_not_json) = Inl SyntaxError \<and>
   fst (validateJWT env0 world0 ''HS256'' key0 token_not_json) \<noteq> Inl (Error ''Invalid JWT'')"
  using js_split_token_not_json segment_text_YQ JSON_parse_a parseJWT_token_not_json
    validateJWT_throws[OF parseJWT_token_not_json, of world0 "''HS256''" key0]
  by simp

section \<open>Payloads that are not objects\<close>

text \<open>
  A payload that is \<^verbatim>\<open>null\<close>, a boolean, a number or a string is rejected. An array
  is of type \<^verbatim>\<open>"object"\<close> and is not \<^verbatim>\<open>null\<close>: it passes the test of line 137, has none
  of the recognised claims, and \<^verbatim>\<open>parseJWT\<close> returns a token for it.
\<close>

lemma parseJWT_primitive_payload:
  assumes "js_split (CHR ''.'') token = [p0, p1, p2]"
    and "segment_json E p0 = Some hdr"
    and "segment_json E p1 = Some pl"
    and "pl = JNull \<or> (\<exists>b. pl = JBool b) \<or> (\<exists>n. pl = JNum n) \<or> (\<exists>s. pl = JStr s)"
  shows "parseJWT E token = Inr None"
proof -
  from assms(3) obtain rawPayload where d1: "base64url_decode E p1 = Some rawPayload"
    and j: "JSON_parse E (TextDecoder_decode E rawPayload) = Some pl"
    by (auto simp: segment_json_def split: option.splits)
  from assms(4) have "typeof pl \<noteq> ''object'' \<or> pl = JNull" by auto
  with j show ?thesis
    by (auto simp: parseJWT_decoded[OF assms(1,2) d1] split: option.splits)
qed

lemma is_JWTPayload_array: "is_JWTPayload (JArr xs)"
  by (simp add: is_JWTPayload_def has_type_def aud_typed_def)

lemma parseJWT_array_accepted:
  assumes "js_split (CHR ''.'') token = [p0, p1, p2]"
    and "segment_json E p0 = Some hdr"
    and "get_prop hdr ''alg'' = Some (JStr a)" "a \<in> set validAlgorithms"
    and "get_prop hdr ''typ'' = None \<or> get_prop hdr ''typ'' = Some (JStr ''JWT'')"
    and "segment_json E p1 = Some (JArr xs)"
  shows "parseJWT E token = Inr (Some (initial_JWT token hdr (JArr xs) (p0, p1, p2) a))"
proof -
  have "parseJWT E token =
      Inr (Some (claims_of (JArr xs) (initial_JWT token hdr (JArr xs) (p0, p1, p2) a)))"
    using assms by (intro parseJWT_of_parts) (simp_all add: is_JWTPayload_array)
  then show ?thesis
    by (simp add: claims_of_def initial_JWT_def date_claim_def string_claim_def aud_claim_def)
qed

lemma segment_json_W10: "segment_json env0 ''W10'' = Some (JArr [])"
  by code_simp

lemma parseJWT_token_array_payload:
  "parseJWT env0 token_array_payload = Inr (Some jwt_array_payload)"
  by code_simp

text \<open>
  Claim C5 on the payload \<^verbatim>\<open>[]\<close>: the claim has \<^verbatim>\<open>parseJWT\<close> return \<^verbatim>\<open>null\<close>; it
  returns a token whose payload is the empty array.
\<close>

theorem parseJWT_array_payload:
  "segment_json env0 ''W10'' = Some (JArr []) \<and>
   parseJWT env0 token_array_payload = Inr (Some jwt_array_payload) \<and>
   payload jwt_array_payload = JArr [] \<and>
   parseJWT env0 token_array_payload \<noteq> Inr None"
  using segment_json_W10 parseJWT_token_array_payload by (simp add: jwt_array_payload_def)

section \<open>The algorithm in the header of a built token\<close>

text \<open>
  \<^verbatim>\<open>createJWT\<close> of \<^verbatim>\<open>src/jwt/jwt.ts\<close> signs with the primitive of the \<^verbatim>\<open>alg\<close> of the
  header it prints.
\<close>

lemma createJWT_alg:
  assumes "createJWT E w key hdr pl = (Inr token, w')"
  shows "\<exists>a prim sg.
           get_prop hdr ''alg'' = Some (JStr a) \<and> getAlgorithm a = Inr prim \<and>
           calls w' = calls w @ [Sign prim key (signing_input E hdr pl)] \<and>
           token = js_join ''.''
             [base64url_encode E (TextEncoder_encode E (JSON_stringify E hdr)),
              base64url_encode E (TextEncoder_encode E (JSON_stringify E pl)),
              base64url_encode E sg]"
  using assms
  by (auto simp: createJWT_def getAlgorithm_of_def signing_input_def Let_def
        split: option.splits json.splits sum.splits)

lemma createJWT_part_003_alg_RS256:
  "fst (createJWT_part_003 env0 world0 ''HS256'' key0 [] options_alg_RS256) =
     Inr ''eyJhbGciOiJSUzI1NiIsInR5cCI6IkpXVCJ9.e30.IAECAwc''"
  by code_simp

lemma createJWT_part_003_calls:
  "map primitive_of
     (calls (snd (createJWT_part_003 env0 world0 ''HS256'' key0 [] options_alg_RS256))) =
     [HMAC SHA_256]"
  by code_simp

lemma segment_json_RS256:
  "segment_json env0 ''eyJhbGciOiJSUzI1NiIsInR5cCI6IkpXVCJ9'' =
     Some (JObj [(''alg'', JStr ''RS256''), (''typ'', JStr ''JWT'')])"
  by code_simp

lemma validateJWT_part_003_token:
  "fst (validateJWT env0 world0 ''HS256'' key0
          ''eyJhbGciOiJSUzI1NiIsInR5cCI6IkpXVCJ9.e30.IAECAwc'') =
     Inl (Error ''Invalid algorithm'')"
  by code_simp

text \<open>
  The second \<^verbatim>\<open>createJWT\<close> does so as long as no custom header field is named
  \<^verbatim>\<open>alg\<close>.
\<close>

lemma map_of_obj_put: "map_of (obj_put kvs k v) = (map_of kvs)(k \<mapsto> v)"
  by (induction kvs) (auto simp: fun_eq_iff)

lemma map_of_spread_other: "k \<notin> fst ` set b \<Longrightarrow> map_of (spread a b) k = map_of a k"
  unfolding spread_def
  by (induction b arbitrary: a) (auto simp: map_of_obj_put)

lemma spread_Nil: "spread a [] = a"
  by (simp add: spread_def)

lemma createJWT_part_003_alg:
  assumes "createJWT_part_003 E w alg key payloadClaims opts = (Inr token, w')"
    and "headers opts = None \<or> (\<exists>hs. headers opts = Some hs \<and> ''alg'' \<notin> fst ` set hs)"
  shows "\<exists>hdr pp sp prim.
           map_of hdr ''alg'' = Some (JStr alg) \<and> getAlgorithm alg = Inr prim \<and>
           token = js_join ''.''
             [base64url_encode E (TextEncoder_encode E (JSON_stringify E (JObj hdr))), pp, sp] \<and>
           map primitive_of (calls w') = map primitive_of (calls w) @ [prim]"
proof -
  define hdr where "hdr = spread [(''alg'', JStr alg), (''typ'', JStr ''JWT'')]
      (case headers opts of None \<Rightarrow> [] | Some hs \<Rightarrow> hs)"
  from assms(2) have a: "map_of hdr ''alg'' = Some (JStr alg)"
    unfolding hdr_def by (auto simp: map_of_spread_other spread_Nil)
  from assms(1) obtain prim where g: "getAlgorithm alg = Inr prim"
    by (cases "getAlgorithm alg")
       (auto simp: createJWT_part_003_def Let_def split: prod.splits option.splits if_splits)
  from assms(1) g have "\<exists>pp sp. token = js_join ''.''
        [base64url_encode E (TextEncoder_encode E (JSON_stringify E (JObj hdr))), pp, sp] \<and>
      map primitive_of (calls w') = map primitive_of (calls w) @ [prim]"
    unfolding hdr_def
    by (auto simp: createJWT_part_003_def Let_def Date_now_def
          split: prod.splits option.splits if_splits)
  with a g show ?thesis by blast
qed

text \<open>
  Claim C3 on the second \<^verbatim>\<open>createJWT\<close>, called as
  \<^verbatim>\<open>createJWT("HS256", key, {}, {headers: {alg: "RS256"}})\<close>: the header of the token
  it returns says \<^verbatim>\<open>RS256\<close>, whose primitive is RSASSA-PKCS1-v1_5, while the one
  primitive invoked is HMAC with SHA-256. The custom header fields are spread after
  \<^verbatim>\<open>alg\<close> and \<^verbatim>\<open>typ\<close> and replace them. Validating the token with the algorithm it was
  built for fails with \<^verbatim>\<open>Invalid algorithm\<close>.
\<close>

theorem createJWT_part_003_alg_override:
  "fst (createJWT_part_003 env0 world0 ''HS256'' key0 [] options_alg_RS256) =
     Inr ''eyJhbGciOiJSUzI1NiIsInR5cCI6IkpXVCJ9.e30.IAECAwc'' \<and>
   segment_json env0 ''eyJhbGciOiJSUzI1NiIsInR5cCI6IkpXVCJ9'' =
     Some (JObj [(''alg'', JStr ''RS256''), (''typ'', JStr ''JWT'')]) \<and>
   map primitive_of
     (calls (snd (createJWT_part_003 env0 world0 ''HS256'' key0 [] options_alg_RS256))) =
     [HMAC SHA_256] \<and>
   getAlgorithm ''RS256'' = Inr (RSASSAPKCS1v1_5 SHA_256) \<and>
   fst (validateJWT env0 world0 ''HS256'' key0
          ''eyJhbGciOiJSUzI1NiIsInR5cCI6IkpXVCJ9.e30.IAECAwc'') =
     Inl (Error ''Invalid algorithm'')"
  using createJWT_part_003_alg_RS256 segment_json_RS256 createJWT_part_003_calls
    validateJWT_part_003_token
  by (simp add: getAlgorithm_def rsassapkcs1v1_5Dictionary_def)

end
